theory Spec2Isabelle
  imports Complex_Main "HOL-Library.Word"
begin

section \<open>Data model\<close>

text \<open>
  The embedding covers \<^verbatim>\<open>src/fault_manager.c\<close> and the part of
  \<^verbatim>\<open>src/slave_life.c\<close> that the lifecycle of one slave goes through.

  C \<^verbatim>\<open>int\<close> counters that are incremented and decremented are 32-bit words (read with
  \<open>sint\<close>, arithmetic wraps). Flags and process ids are only assigned and compared, so they
  are \<open>int\<close>. The value of a \<^verbatim>\<open>double\<close> is a \<open>real\<close>; doubles are compared
  exactly, and the one subtraction of doubles, which rounds, is \<open>double_sub\<close> of the
  environment. A pointer to a
  slave is an address into \<open>nodes\<close>; \<open>None\<close> at an address means that nothing is
  allocated there, and a \<^verbatim>\<open>struct slave_node *\<close> that may be \<^verbatim>\<open>NULL\<close> is a
  \<open>slave_ptr option\<close>. C strings are \<open>string\<close>.
\<close>

type_synonym cint = "32 word"
type_synonym slave_ptr = nat
type_synonym ecore_timer = nat

datatype slave_state =
    SLAVE_REQUEST_TO_LAUNCH
  | SLAVE_REQUEST_TO_TERMINATE
  | SLAVE_TERMINATED
  | SLAVE_REQUEST_TO_PAUSE
  | SLAVE_REQUEST_TO_RESUME
  | SLAVE_PAUSED
  | SLAVE_RESUMED
  | SLAVE_ERROR

text \<open>The status codes of \<^verbatim>\<open>livebox-errno.h\<close> that the two files return.\<close>

datatype lb_status =
    LB_STATUS_SUCCESS
  | LB_STATUS_ERROR_INVALID
  | LB_STATUS_ERROR_FAULT
  | LB_STATUS_ERROR_MEMORY
  | LB_STATUS_ERROR_ALREADY
  | LB_STATUS_ERROR_NOT_EXIST

text \<open>\<^verbatim>\<open>struct event\<close>: the callback is the address of external code.\<close>

record event =
  ev_slave :: slave_ptr
  evt_cb :: nat
  cbdata :: nat

record priv_data =
  pd_tag :: string
  pd_data :: nat

record timeval =
  tv_sec :: int
  tv_usec :: int

text \<open>
  \<^verbatim>\<open>struct slave_node\<close>. The field \<^verbatim>\<open>activated_at\<close> is a \<^verbatim>\<open>double\<close> when the build
  defines \<^verbatim>\<open>_USE_ECORE_TIME_GET\<close> and a \<^verbatim>\<open>struct timeval\<close> otherwise; the record has
  one field for each build, and a build reads and writes only its own.
\<close>

record slave_node =
  name :: string
  abi :: string
  pkgname :: string
  secured :: int
  refcnt :: cint
  fault_count :: cint
  critical_fault_count :: cint
  state :: slave_state
  network :: int
  loaded_instance :: cint
  loaded_package :: cint
  reactivate_instances :: int
  reactivate_slave :: int
  pid :: int
  event_activate_list :: "event list"
  event_deactivate_list :: "event list"
  event_delete_list :: "event list"
  event_fault_list :: "event list"
  event_pause_list :: "event list"
  event_resume_list :: "event list"
  data_list :: "priv_data list"
  ttl_timer :: "ecore_timer option"
  activate_timer :: "ecore_timer option"
  relaunch_timer :: "ecore_timer option"
  relaunch_count :: cint
  activated_at :: real
  activated_at_tv :: timeval

text \<open>\<^verbatim>\<open>struct fault_info\<close> of the fault manager.\<close>

record fault_info =
  fi_slave :: slave_ptr
  fi_timestamp :: real
  fi_pkgname :: string
  fi_filename :: string
  fi_func :: string

text \<open>
  What the code does to the outside: log lines, packets, signals, timers and the calls into
  the other modules of the daemon. They are appended to \<open>trace\<close> in program order.
\<close>

datatype timer_cb = Slave_ttl_cb | Activate_timer_cb | Relaunch_timer_cb

datatype xmonitor_event = XMONITOR_PAUSED | XMONITOR_RESUMED

datatype effect =
    ErrPrint string
  | DbgPrint string
  | CriticalLog string
  | DumpFaultInfo string int string string string
  | PackageSetFaultInfo string real "string option" "string option"
  | ClientBroadcast string string string
  | AulTerminatePid int
  | AulLaunchApp string "(string \<times> string) list"
  | EcoreTimerAdd real timer_cb slave_ptr
  | EcoreTimerDel ecore_timer
  | InvokeCb event
  | XmonitorDelEventCallback xmonitor_event slave_ptr
  | SlaveRpcFini slave_ptr
  | SlaveRpcAsyncRequest slave_ptr string real
  | SlaveRpcPingFreeze slave_ptr
  | SlaveRpcPingThaw slave_ptr

text \<open>
  The process state: the heap of slave records, \<^verbatim>\<open>s_info\<close> of \<^verbatim>\<open>slave_life.c\<close>
  (\<open>slave_list\<close>, \<open>deactivate_all_refcnt\<close>), \<^verbatim>\<open>s_info\<close> of \<^verbatim>\<open>fault_manager.c\<close>
  (\<open>call_list\<close>, \<open>fault_mark_count\<close>), and the crash-log directory: \<open>log_files w p\<close> is the
  content of \<^verbatim>\<open>SLAVE_LOG_PATH/slave.<p>\<close>, \<open>None\<close> when there is no such file.
\<close>

record world =
  nodes :: "slave_ptr \<Rightarrow> slave_node option"
  slave_list :: "slave_ptr list"
  deactivate_all_refcnt :: cint
  call_list :: "fault_info list"
  fault_mark_count :: cint
  log_files :: "int \<Rightarrow> string option"
  trace :: "effect list"

text \<open>
  Everything the two files take from elsewhere: the tunables of \<^verbatim>\<open>conf.h\<close>, constants of
  libc and of the launcher, and the results of calls into code that is not part of the
  embedding (package registry, launcher, timers, allocator, clock, observers).
\<close>

record env =
  BUFSIZ :: nat
  SLAVE_MAX_LOAD :: cint
  SLAVE_RELAUNCH_COUNT :: cint
  SLAVE_ACTIVATE_TIME :: real
  SLAVE_RELAUNCH_TIME :: real
  SLAVE_TTL :: real
  MINIMUM_REACTIVATION_TIME :: real
  DEFAULT_ABI :: string
  DEBUG_MODE :: bool
  USE_ECORE_TIME_GET :: bool
  SLAVE_NEED_TO_REACTIVATE :: int
  AUL_R_ENOLAUNCHPAD :: int
  AUL_R_EILLACC :: int
  AUL_R_EINVAL :: int
  AUL_R_ENOINIT :: int
  AUL_R_ERROR :: int
  AUL_R_ECOMM :: int
  AUL_R_ETERMINATING :: int
  AUL_R_ECANCELED :: int
  AUL_R_ETIMEOUT :: int
  package_find :: "string \<Rightarrow> bool"
  package_find_by_secured_slave :: "slave_ptr \<Rightarrow> string option"
  util_timestamp :: real
  ecore_time_get :: real
  double_sub :: "real \<Rightarrow> real \<Rightarrow> real"
  gettimeofday :: "timeval option"
  alloc_ok :: bool
  packet_create_ok :: bool
  bundle_create_ok :: bool
  ecore_timer_add :: "real \<Rightarrow> timer_cb \<Rightarrow> slave_ptr \<Rightarrow> ecore_timer option"
  aul_launch_app :: "string \<Rightarrow> (string \<times> string) list \<Rightarrow> int"
  aul_terminate_pid :: "int \<Rightarrow> int"
  evt_ret :: "event \<Rightarrow> int"
  slave_rpc_async_request :: "slave_ptr \<Rightarrow> string \<Rightarrow> lb_status"
  xmonitor_is_paused :: bool

definition node :: "world \<Rightarrow> slave_ptr \<Rightarrow> slave_node" where
  "node w p = the (nodes w p)"

definition emit :: "effect list \<Rightarrow> world \<Rightarrow> world" where
  "emit es w = w\<lparr>trace := trace w @ es\<rparr>"

definition slave_pid :: "world \<Rightarrow> slave_ptr \<Rightarrow> int" where
  "slave_pid w slave = pid (node w slave)"

definition slave_name :: "world \<Rightarrow> slave_ptr \<Rightarrow> string" where
  "slave_name w slave = name (node w slave)"

section \<open>libc\<close>

text \<open>\<^verbatim>\<open>strcmp\<close>: the sign of the first difference, bytes compared as unsigned.\<close>

fun strcmp :: "string \<Rightarrow> string \<Rightarrow> int" where
  "strcmp [] [] = 0"
| "strcmp [] (y # ys) = -1"
| "strcmp (x # xs) [] = 1"
| "strcmp (x # xs) (y # ys) =
     (if x = y then strcmp xs ys
      else if (of_char x :: nat) < of_char y then -1 else 1)"

text \<open>
  \<^verbatim>\<open>fgets(buf, size, fp)\<close> on a freshly opened file with the given content: at most
  \<open>size - 1\<close> bytes, up to and including the first newline; \<^verbatim>\<open>NULL\<close> at end of file.
  The buffer is then read as a C string, which ends at the first NUL byte.
\<close>

fun read_line :: "nat \<Rightarrow> string \<Rightarrow> string" where
  "read_line 0 cs = []"
| "read_line (Suc n) [] = []"
| "read_line (Suc n) (c # cs) = (if c = CHR 0x0A then [c] else c # read_line n cs)"

definition fgets :: "nat \<Rightarrow> string \<Rightarrow> string option" where
  "fgets sz content = (if content = [] then None else Some (read_line (sz - 1) content))"

definition c_str :: "string \<Rightarrow> string" where
  "c_str buf = takeWhile (\<lambda>c. c \<noteq> CHR 0x00) buf"

section \<open>fault\_manager.c\<close>

definition fault_is_occured :: "world \<Rightarrow> cint" where
  "fault_is_occured w = fault_mark_count w"

definition clear_log_file :: "slave_ptr \<Rightarrow> world \<Rightarrow> world" where
  "clear_log_file slave w = w\<lparr>log_files := (log_files w)(slave_pid w slave := None)\<rparr>"

text \<open>
  The loop \<^verbatim>\<open>for (i = 0; pattern[i] && (pattern[i] == pkgname[i]); i++);\<close>: the number of
  leading bytes on which the pattern and the line agree.
\<close>

fun match_pattern :: "string \<Rightarrow> string \<Rightarrow> nat" where
  "match_pattern [] cs = 0"
| "match_pattern (p # ps) [] = 0"
| "match_pattern (p # ps) (c # cs) = (if p = c then Suc (match_pattern ps cs) else 0)"

definition check_log_file :: "env \<Rightarrow> slave_ptr \<Rightarrow> world \<Rightarrow> string option \<times> world" where
  "check_log_file e slave w =
     (let pattern = ''liblive-'' in
      case log_files w (slave_pid w slave) of
        None \<Rightarrow> (None, emit [ErrPrint ''No log file found''] w)
      | Some content \<Rightarrow>
          (case fgets (BUFSIZ e) content of
             None \<Rightarrow> (None, emit [ErrPrint ''Invalid log''] w)
           | Some buf \<Rightarrow>
               (let pkgname = c_str buf;
                    i = match_pattern pattern pkgname
                in if length pattern \<noteq> i
                   then (None, emit [ErrPrint ''Pattern is not matched''] w)
                   else
                     (let ptr = drop i pkgname;
                          i = int (length ptr) - 3
                      in if i \<le> 0 \<or> strcmp (drop (nat i) ptr) ''.so'' \<noteq> 0
                         then (None, emit [ErrPrint ''Extension is not matched''] w)
                         else
                           (let w1 = w\<lparr>log_files := (log_files w)(slave_pid w slave := None)\<rparr>
                            in (if alloc_ok e then Some (take (nat i) ptr) else None, w1))))))"

definition fault_broadcast_info :: "env \<Rightarrow> string \<Rightarrow> string \<Rightarrow> string \<Rightarrow> effect list" where
  "fault_broadcast_info e pkg filename func =
     (if packet_create_ok e then [ClientBroadcast pkg filename func]
      else [ErrPrint ''Failed to create a param''])"

definition dump_fault_info :: "string \<Rightarrow> int \<Rightarrow> string \<Rightarrow> string \<Rightarrow> string \<Rightarrow> effect list" where
  "dump_fault_info nm pd pkg filename funcname = [DumpFaultInfo nm pd pkg filename funcname]"

text \<open>
  The loop of the first two steps of \<^verbatim>\<open>fault_check_pkgs\<close>: every record of the slave is
  unlinked from the call list and freed, the others stay in their order.
\<close>

definition remove_slave_calls :: "slave_ptr \<Rightarrow> fault_info list \<Rightarrow> fault_info list" where
  "remove_slave_calls slave cl = filter (\<lambda>info. fi_slave info \<noteq> slave) cl"

text \<open>
  The attribution of the first two steps, once a registered package name is at hand:
  fault info on the package, the dump, the broadcast with empty file and function, the
  counter, the log file and the call list.
\<close>

definition attribute_to_package :: "env \<Rightarrow> slave_ptr \<Rightarrow> string \<Rightarrow> world \<Rightarrow> world" where
  "attribute_to_package e slave pkg w =
     (let w1 = emit ([PackageSetFaultInfo pkg (util_timestamp e) None None]
                     @ dump_fault_info (slave_name w slave) (slave_pid w slave) pkg '''' ''''
                     @ [ErrPrint ''Set fault'']
                     @ fault_broadcast_info e pkg '''' '''') w;
          w2 = w1\<lparr>fault_mark_count := 0\<rparr>;
          w3 = clear_log_file slave w2
      in w3\<lparr>call_list := remove_slave_calls slave (call_list w3)\<rparr>)"

text \<open>
  The loop of the last step, over the call list from its end: \<open>cl\<close> is the list reversed.
  The result is the records that stay (in the order of the walk) and the effects. A record
  of the slave whose package is not registered is skipped by \<^verbatim>\<open>continue\<close>: it stays in the
  list and does not set \<^verbatim>\<open>checked\<close>.
\<close>

fun walk_call_list ::
  "env \<Rightarrow> string \<Rightarrow> int \<Rightarrow> slave_ptr \<Rightarrow> bool \<Rightarrow> fault_info list \<Rightarrow> fault_info list \<times> effect list"
where
  "walk_call_list e nm pd slave checked [] = ([], [])"
| "walk_call_list e nm pd slave checked (info # rest) =
     (if fi_slave info = slave then
        (if \<not> package_find e (fi_pkgname info) then
           (let (kept, es) = walk_call_list e nm pd slave checked rest
            in (info # kept, ErrPrint ''Failed to find a package'' # es))
         else
           (let here =
                  (if \<not> checked then
                     [PackageSetFaultInfo (fi_pkgname info) (fi_timestamp info)
                        (Some (fi_filename info)) (Some (fi_func info))]
                     @ fault_broadcast_info e (fi_pkgname info) (fi_filename info) (fi_func info)
                     @ [ErrPrint ''Set fault'']
                   else
                     [DbgPrint ''Treated as a false log'']
                     @ dump_fault_info nm pd (fi_pkgname info) (fi_filename info) (fi_func info));
                (kept, es) = walk_call_list e nm pd slave True rest
            in (kept, here @ es)))
      else
        (let (kept, es) = walk_call_list e nm pd slave checked rest
         in (info # kept, es)))"

definition check_call_list :: "env \<Rightarrow> slave_ptr \<Rightarrow> world \<Rightarrow> world" where
  "check_call_list e slave w =
     (let (kept, es) =
            walk_call_list e (slave_name w slave) (slave_pid w slave) slave False (rev (call_list w));
          w1 = emit es (w\<lparr>call_list := rev kept\<rparr>);
          w2 = w1\<lparr>fault_mark_count := 0\<rparr>
      in clear_log_file slave w2)"

definition fault_check_pkgs :: "env \<Rightarrow> slave_ptr \<Rightarrow> world \<Rightarrow> int \<times> world" where
  "fault_check_pkgs e slave w =
     (let (logged, w1) = check_log_file e slave w in
      case (case logged of None \<Rightarrow> None
            | Some pkg \<Rightarrow> if package_find e pkg then Some pkg else None) of
        Some pkg \<Rightarrow> (0, attribute_to_package e slave pkg w1)
      | None \<Rightarrow>
          (case (case package_find_by_secured_slave e slave of None \<Rightarrow> None
                 | Some pkg \<Rightarrow> if package_find e pkg then Some pkg else None) of
             Some pkg \<Rightarrow> (0, attribute_to_package e slave pkg w1)
           | None \<Rightarrow> (0, check_call_list e slave w1)))"

definition fault_func_call ::
  "env \<Rightarrow> slave_ptr \<Rightarrow> string \<Rightarrow> string \<Rightarrow> string \<Rightarrow> world \<Rightarrow> lb_status \<times> world"
where
  "fault_func_call e slave pkg filename func w =
     (if \<not> alloc_ok e then (LB_STATUS_ERROR_MEMORY, w)
      else
        (let info = \<lparr>fi_slave = slave, fi_timestamp = util_timestamp e,
                      fi_pkgname = pkg, fi_filename = filename, fi_func = func\<rparr>
         in (LB_STATUS_SUCCESS,
             w\<lparr>call_list := call_list w @ [info],
               fault_mark_count := fault_mark_count w + 1\<rparr>)))"

definition same_call :: "slave_ptr \<Rightarrow> string \<Rightarrow> string \<Rightarrow> string \<Rightarrow> fault_info \<Rightarrow> bool" where
  "same_call slave pkg filename func info \<longleftrightarrow>
     fi_slave info = slave \<and> strcmp (fi_pkgname info) pkg = 0
     \<and> strcmp (fi_filename info) filename = 0 \<and> strcmp (fi_func info) func = 0"

text \<open>The loop of \<^verbatim>\<open>fault_func_ret\<close>: from the head, unlink the first record that matches.\<close>

fun remove_first_call ::
  "slave_ptr \<Rightarrow> string \<Rightarrow> string \<Rightarrow> string \<Rightarrow> fault_info list \<Rightarrow> fault_info list option"
where
  "remove_first_call slave pkg filename func [] = None"
| "remove_first_call slave pkg filename func (info # rest) =
     (if same_call slave pkg filename func info then Some rest
      else map_option (\<lambda>r. info # r) (remove_first_call slave pkg filename func rest))"

definition fault_func_ret ::
  "slave_ptr \<Rightarrow> string \<Rightarrow> string \<Rightarrow> string \<Rightarrow> world \<Rightarrow> lb_status \<times> world"
where
  "fault_func_ret slave pkg filename func w =
     (case remove_first_call slave pkg filename func (call_list w) of
        Some cl \<Rightarrow> (LB_STATUS_SUCCESS,
                    w\<lparr>call_list := cl, fault_mark_count := fault_mark_count w - 1\<rparr>)
      | None \<Rightarrow> (LB_STATUS_ERROR_NOT_EXIST, w))"

section \<open>slave\_life.c\<close>

text \<open>
  The observers registered on a slave are external code. Their return value is
  \<open>evt_ret\<close>; every invocation is recorded in the trace. What an observer does to the
  process state while it runs is outside the embedding.
\<close>

definition update_node :: "slave_ptr \<Rightarrow> (slave_node \<Rightarrow> slave_node) \<Rightarrow> world \<Rightarrow> world" where
  "update_node p f w = w\<lparr>nodes := (nodes w)(p \<mapsto> f (node w p))\<rparr>"

definition slave_state :: "world \<Rightarrow> slave_ptr option \<Rightarrow> slave_state" where
  "slave_state w slave = (case slave of None \<Rightarrow> SLAVE_ERROR | Some p \<Rightarrow> state (node w p))"

definition slave_pkgname :: "world \<Rightarrow> slave_ptr option \<Rightarrow> string option" where
  "slave_pkgname w slave = (case slave of None \<Rightarrow> None | Some p \<Rightarrow> Some (pkgname (node w p)))"

definition slave_loaded_instance :: "world \<Rightarrow> slave_ptr \<Rightarrow> cint" where
  "slave_loaded_instance w slave = loaded_instance (node w slave)"

definition slave_loaded_package :: "world \<Rightarrow> slave_ptr \<Rightarrow> cint" where
  "slave_loaded_package w slave = loaded_package (node w slave)"

definition slave_set_reactivate_instances :: "slave_ptr \<Rightarrow> int \<Rightarrow> world \<Rightarrow> world" where
  "slave_set_reactivate_instances slave reactivate w =
     update_node slave (\<lambda>s. s\<lparr>reactivate_instances := reactivate\<rparr>) w"

definition slave_need_to_reactivate_instances :: "world \<Rightarrow> slave_ptr \<Rightarrow> int" where
  "slave_need_to_reactivate_instances w slave = reactivate_instances (node w slave)"

definition slave_set_reactivation :: "slave_ptr \<Rightarrow> int \<Rightarrow> world \<Rightarrow> world" where
  "slave_set_reactivation slave flag w =
     update_node slave (\<lambda>s. s\<lparr>reactivate_slave := flag\<rparr>) w"

definition slave_need_to_reactivate :: "world \<Rightarrow> slave_ptr \<Rightarrow> int" where
  "slave_need_to_reactivate w slave = reactivate_slave (node w slave)"

definition slave_is_activated :: "world \<Rightarrow> slave_ptr \<Rightarrow> bool" where
  "slave_is_activated w slave =
     (case state (node w slave) of
        SLAVE_REQUEST_TO_TERMINATE \<Rightarrow> False
      | SLAVE_TERMINATED \<Rightarrow> False
      | SLAVE_REQUEST_TO_LAUNCH \<Rightarrow> True
      | SLAVE_REQUEST_TO_PAUSE \<Rightarrow> True
      | SLAVE_REQUEST_TO_RESUME \<Rightarrow> True
      | SLAVE_PAUSED \<Rightarrow> True
      | SLAVE_RESUMED \<Rightarrow> True
      | SLAVE_ERROR \<Rightarrow> pid (node w slave) \<noteq> -1)"

text \<open>
  The loop shared by \<^verbatim>\<open>invoke_delete_cb\<close>, \<^verbatim>\<open>invoke_fault_cb\<close>,
  \<^verbatim>\<open>invoke_activate_cb\<close>, \<^verbatim>\<open>invoke_resumed_cb\<close> and \<^verbatim>\<open>invoke_paused_cb\<close>: walk the list
  as it was on entry; an observer that returns a negative value is unlinked if it is still
  in the list. The first argument is what is left of the walk, the second the list as it
  stands.
\<close>

fun invoke_event_list :: "env \<Rightarrow> event list \<Rightarrow> event list \<Rightarrow> event list \<times> effect list" where
  "invoke_event_list e [] cur = (cur, [])"
| "invoke_event_list e (ev # rest) cur =
     (let ret = evt_ret e ev;
          cur1 = (if ret < 0 \<and> ev \<in> set cur then remove1 ev cur else cur);
          (final, es) = invoke_event_list e rest cur1
      in (final, InvokeCb ev # es))"

definition invoke_delete_cb :: "env \<Rightarrow> slave_ptr \<Rightarrow> world \<Rightarrow> world" where
  "invoke_delete_cb e slave w =
     (let l = event_delete_list (node w slave);
          (final, es) = invoke_event_list e l l
      in emit es (update_node slave (\<lambda>s. s\<lparr>event_delete_list := final\<rparr>) w))"

definition invoke_fault_cb :: "env \<Rightarrow> slave_ptr \<Rightarrow> world \<Rightarrow> world" where
  "invoke_fault_cb e slave w =
     (let l = event_fault_list (node w slave);
          (final, es) = invoke_event_list e l l
      in emit es (update_node slave (\<lambda>s. s\<lparr>event_fault_list := final\<rparr>) w))"

definition invoke_activate_cb :: "env \<Rightarrow> slave_ptr \<Rightarrow> world \<Rightarrow> world" where
  "invoke_activate_cb e slave w =
     (let l = event_activate_list (node w slave);
          (final, es) = invoke_event_list e l l
      in emit es (update_node slave (\<lambda>s. s\<lparr>event_activate_list := final\<rparr>) w))"

text \<open>
  \<^verbatim>\<open>invoke_deactivate_cb\<close> also counts the observers that answer
  \<^verbatim>\<open>SLAVE_NEED_TO_REACTIVATE\<close>.
\<close>

fun invoke_deactivate_list ::
  "env \<Rightarrow> event list \<Rightarrow> event list \<Rightarrow> cint \<Rightarrow> event list \<times> effect list \<times> cint"
where
  "invoke_deactivate_list e [] cur reactivate = (cur, [], reactivate)"
| "invoke_deactivate_list e (ev # rest) cur reactivate =
     (let ret = evt_ret e ev;
          cur1 = (if ret < 0 \<and> ev \<in> set cur then remove1 ev cur else cur);
          reactivate1 = (if \<not> ret < 0 \<and> ret = SLAVE_NEED_TO_REACTIVATE e
                         then reactivate + 1 else reactivate);
          (final, es, n) = invoke_deactivate_list e rest cur1 reactivate1
      in (final, InvokeCb ev # es, n))"

definition invoke_deactivate_cb :: "env \<Rightarrow> slave_ptr \<Rightarrow> world \<Rightarrow> cint \<times> world" where
  "invoke_deactivate_cb e slave w =
     (let l = event_deactivate_list (node w slave);
          (final, es, reactivate) = invoke_deactivate_list e l l 0
      in (reactivate, emit es (update_node slave (\<lambda>s. s\<lparr>event_deactivate_list := final\<rparr>) w)))"

text \<open>The three timers of a record, deleted when they are set.\<close>

definition timer_dels :: "slave_node \<Rightarrow> effect list" where
  "timer_dels s =
     (case ttl_timer s of None \<Rightarrow> [] | Some t \<Rightarrow> [EcoreTimerDel t])
     @ (case activate_timer s of None \<Rightarrow> [] | Some t \<Rightarrow> [EcoreTimerDel t])
     @ (case relaunch_timer s of None \<Rightarrow> [] | Some t \<Rightarrow> [EcoreTimerDel t])"

definition destroy_slave_node :: "env \<Rightarrow> slave_ptr \<Rightarrow> world \<Rightarrow> world" where
  "destroy_slave_node e slave w =
     (if slave_pid w slave \<noteq> -1 then emit [ErrPrint ''Slave is not deactivated''] w
      else
        (let w1 = emit [XmonitorDelEventCallback XMONITOR_PAUSED slave,
                        XmonitorDelEventCallback XMONITOR_RESUMED slave] w;
             w2 = invoke_delete_cb e slave w1;
             w3 = emit [SlaveRpcFini slave] w2;
             w4 = update_node slave
                    (\<lambda>s. s\<lparr>event_delete_list := [], event_activate_list := [],
                           event_deactivate_list := [], event_fault_list := [],
                           data_list := []\<rparr>) w3;
             w5 = w4\<lparr>slave_list := remove1 slave (slave_list w4)\<rparr>;
             w6 = emit (timer_dels (node w5 slave)) w5
         in w6\<lparr>nodes := (nodes w6)(slave := None)\<rparr>))"

definition slave_ref :: "slave_ptr option \<Rightarrow> world \<Rightarrow> slave_ptr option \<times> world" where
  "slave_ref slave w =
     (case slave of
        None \<Rightarrow> (None, w)
      | Some p \<Rightarrow> (Some p, update_node p (\<lambda>s. s\<lparr>refcnt := refcnt s + 1\<rparr>) w))"

definition slave_unref :: "env \<Rightarrow> slave_ptr option \<Rightarrow> world \<Rightarrow> slave_ptr option \<times> world" where
  "slave_unref e slave w =
     (case slave of
        None \<Rightarrow> (None, w)
      | Some p \<Rightarrow>
          if refcnt (node w p) = 0 then (None, emit [ErrPrint ''Slave refcnt is not valid''] w)
          else
            (let w1 = update_node p (\<lambda>s. s\<lparr>refcnt := refcnt s - 1\<rparr>) w
             in if refcnt (node w1 p) = 0 then (None, destroy_slave_node e p w1)
                else (Some p, w1)))"

definition slave_refcnt :: "world \<Rightarrow> slave_ptr \<Rightarrow> cint" where
  "slave_refcnt w slave = refcnt (node w slave)"

text \<open>
  \<^verbatim>\<open>slave_activate\<close>. The launcher's answer is stored in \<^verbatim>\<open>pid\<close> and then compared
  with the \<^verbatim>\<open>AUL_R_*\<close> codes in the order of the \<^verbatim>\<open>switch\<close>.
\<close>

definition slave_activate :: "env \<Rightarrow> slave_ptr \<Rightarrow> world \<Rightarrow> lb_status \<times> world" where
  "slave_activate e slave w =
     (let finish = (\<lambda>w. (LB_STATUS_SUCCESS,
                          snd (slave_ref (Some slave)
                                 (update_node slave (\<lambda>s. s\<lparr>state := SLAVE_REQUEST_TO_LAUNCH\<rparr>) w))));
          arm = (\<lambda>w.
                  let t = ecore_timer_add e (SLAVE_ACTIVATE_TIME e) Activate_timer_cb slave;
                      w1 = emit [EcoreTimerAdd (SLAVE_ACTIVATE_TIME e) Activate_timer_cb slave]
                             (update_node slave (\<lambda>s. s\<lparr>activate_timer := t\<rparr>) w)
                  in finish (if t = None then emit [ErrPrint ''Failed to register an activate timer''] w1
                             else w1))
      in
      if slave_pid w slave \<noteq> -1 then
        (LB_STATUS_ERROR_ALREADY,
         if slave_state w (Some slave) = SLAVE_REQUEST_TO_TERMINATE
         then slave_set_reactivation slave 1 w else w)
      else if slave_state w (Some slave) = SLAVE_REQUEST_TO_LAUNCH then
        (LB_STATUS_ERROR_ALREADY,
         emit [DbgPrint ''Slave is already launched: but the AUL is timed out''] w)
      else if DEBUG_MODE e then
        finish (emit [DbgPrint ''Debug Mode enabled''] w)
      else
        (let w1 = update_node slave (\<lambda>s. s\<lparr>relaunch_count := SLAVE_RELAUNCH_COUNT e\<rparr>) w
         in if \<not> bundle_create_ok e
            then (LB_STATUS_ERROR_FAULT, emit [ErrPrint ''Failed to create a bundle''] w1)
            else
              (let param = [(''BUNDLE_SLAVE_NAME'', slave_name w1 slave),
                            (''BUNDLE_SLAVE_SECURED'',
                               if secured (node w1 slave) \<noteq> 0 then ''true'' else ''false''),
                            (''BUNDLE_SLAVE_ABI'', abi (node w1 slave))];
                   r = aul_launch_app e (pkgname (node w1 slave)) param;
                   w2 = emit [AulLaunchApp (pkgname (node w1 slave)) param]
                          (update_node slave (\<lambda>s. s\<lparr>pid := r\<rparr>) w1)
               in
               if r = AUL_R_ENOLAUNCHPAD e \<or> r = AUL_R_EILLACC e \<or> r = AUL_R_EINVAL e
                  \<or> r = AUL_R_ENOINIT e \<or> r = AUL_R_ERROR e
               then arm (update_node slave (\<lambda>s. s\<lparr>pid := -1\<rparr>)
                           (emit [CriticalLog ''Failed to launch a new slave''] w2))
               else if r = AUL_R_ECOMM e \<or> r = AUL_R_ETERMINATING e \<or> r = AUL_R_ECANCELED e
                       \<or> r = AUL_R_ETIMEOUT e
               then
                 (let t = ecore_timer_add e (SLAVE_RELAUNCH_TIME e) Relaunch_timer_cb slave;
                      w3 = emit [CriticalLog ''Try relaunch this soon'',
                                 EcoreTimerAdd (SLAVE_RELAUNCH_TIME e) Relaunch_timer_cb slave]
                             (update_node slave (\<lambda>s. s\<lparr>relaunch_timer := t\<rparr>) w2)
                  in if t = None
                     then (LB_STATUS_ERROR_FAULT,
                           update_node slave (\<lambda>s. s\<lparr>pid := -1\<rparr>)
                             (emit [CriticalLog ''Failed to register a relaunch timer''] w3))
                     else arm w3)
               else arm (emit [DbgPrint ''Slave is launched''] w2))))"

text \<open>
  \<^verbatim>\<open>slave_resume\<close> and \<^verbatim>\<open>slave_pause\<close>. The request is queued by the RPC layer, whose
  status is the result.
\<close>

definition slave_resume :: "env \<Rightarrow> slave_ptr \<Rightarrow> world \<Rightarrow> lb_status \<times> world" where
  "slave_resume e slave w =
     (case state (node w slave) of
        SLAVE_REQUEST_TO_LAUNCH \<Rightarrow> (LB_STATUS_ERROR_INVALID, w)
      | SLAVE_REQUEST_TO_TERMINATE \<Rightarrow> (LB_STATUS_ERROR_INVALID, w)
      | SLAVE_TERMINATED \<Rightarrow> (LB_STATUS_ERROR_INVALID, w)
      | SLAVE_RESUMED \<Rightarrow> (LB_STATUS_SUCCESS, w)
      | SLAVE_REQUEST_TO_RESUME \<Rightarrow> (LB_STATUS_SUCCESS, w)
      | _ \<Rightarrow>
          (let timestamp = util_timestamp e
           in if \<not> packet_create_ok e
              then (LB_STATUS_ERROR_FAULT, emit [ErrPrint ''Failed to prepare param''] w)
              else (slave_rpc_async_request e slave ''resume'',
                    emit [SlaveRpcAsyncRequest slave ''resume'' timestamp]
                      (update_node slave (\<lambda>s. s\<lparr>state := SLAVE_REQUEST_TO_RESUME\<rparr>) w))))"

definition slave_pause :: "env \<Rightarrow> slave_ptr \<Rightarrow> world \<Rightarrow> lb_status \<times> world" where
  "slave_pause e slave w =
     (case state (node w slave) of
        SLAVE_REQUEST_TO_LAUNCH \<Rightarrow> (LB_STATUS_ERROR_INVALID, w)
      | SLAVE_REQUEST_TO_TERMINATE \<Rightarrow> (LB_STATUS_ERROR_INVALID, w)
      | SLAVE_TERMINATED \<Rightarrow> (LB_STATUS_ERROR_INVALID, w)
      | SLAVE_PAUSED \<Rightarrow> (LB_STATUS_SUCCESS, w)
      | SLAVE_REQUEST_TO_PAUSE \<Rightarrow> (LB_STATUS_SUCCESS, w)
      | _ \<Rightarrow>
          (let timestamp = util_timestamp e
           in if \<not> packet_create_ok e
              then (LB_STATUS_ERROR_FAULT, emit [ErrPrint ''Failed to prepare param''] w)
              else (slave_rpc_async_request e slave ''pause'',
                    emit [SlaveRpcAsyncRequest slave ''pause'' timestamp]
                      (update_node slave (\<lambda>s. s\<lparr>state := SLAVE_REQUEST_TO_PAUSE\<rparr>) w))))"

definition slave_activated :: "env \<Rightarrow> slave_ptr \<Rightarrow> world \<Rightarrow> lb_status \<times> world" where
  "slave_activated e slave w =
     (let w1 = update_node slave (\<lambda>s. s\<lparr>state := SLAVE_RESUMED\<rparr>) w;
          w2 = (if xmonitor_is_paused e then snd (slave_pause e slave w1) else w1);
          w3 = (if secured (node w2 slave) = 1 then
                  (let t = ecore_timer_add e (SLAVE_TTL e) Slave_ttl_cb slave;
                       w' = emit [DbgPrint ''Slave deactivation timer is added'',
                                  EcoreTimerAdd (SLAVE_TTL e) Slave_ttl_cb slave]
                              (update_node slave (\<lambda>s. s\<lparr>ttl_timer := t\<rparr>) w2)
                   in if t = None then emit [ErrPrint ''Failed to create a TTL timer''] w' else w')
                else w2);
          w4 = invoke_activate_cb e slave w3;
          w5 = slave_set_reactivate_instances slave 0 (slave_set_reactivation slave 0 w4);
          w6 = (if USE_ECORE_TIME_GET e
                then update_node slave (\<lambda>s. s\<lparr>activated_at := ecore_time_get e\<rparr>) w5
                else (case gettimeofday e of
                        Some tv \<Rightarrow> update_node slave (\<lambda>s. s\<lparr>activated_at_tv := tv\<rparr>) w5
                      | None \<Rightarrow>
                          update_node slave
                            (\<lambda>s. s\<lparr>activated_at_tv := \<lparr>tv_sec = 0, tv_usec = 0\<rparr>\<rparr>)
                            (emit [ErrPrint ''Failed to get time of day''] w5)));
          w7 = (case activate_timer (node w6 slave) of
                  None \<Rightarrow> w6
                | Some t \<Rightarrow> update_node slave (\<lambda>s. s\<lparr>activate_timer := None\<rparr>)
                              (emit [EcoreTimerDel t] w6));
          w8 = (case relaunch_timer (node w7 slave) of
                  None \<Rightarrow> w7
                | Some t \<Rightarrow> update_node slave (\<lambda>s. s\<lparr>relaunch_timer := None\<rparr>)
                              (emit [EcoreTimerDel t] w7))
      in (LB_STATUS_SUCCESS, w8))"

text \<open>
  \<^verbatim>\<open>slave_deactivated\<close>: the process is gone. The record may be destroyed by
  \<^verbatim>\<open>slave_unref\<close>; the result is then \<^verbatim>\<open>NULL\<close>.
\<close>

definition slave_deactivated :: "env \<Rightarrow> slave_ptr \<Rightarrow> world \<Rightarrow> slave_ptr option \<times> world" where
  "slave_deactivated e slave w =
     (let w1 = emit (timer_dels (node w slave))
                 (update_node slave
                    (\<lambda>s. s\<lparr>pid := -1, state := SLAVE_TERMINATED, ttl_timer := None,
                           activate_timer := None, relaunch_timer := None\<rparr>) w);
          (reactivate, w2) = invoke_deactivate_cb e slave w1;
          (slave1, w3) = slave_unref e (Some slave) w2
      in case slave1 of
           None \<Rightarrow> (None, emit [DbgPrint ''SLAVE object is destroyed''] w3)
         | Some p \<Rightarrow>
             if reactivate \<noteq> 0 \<and> slave_need_to_reactivate w3 p \<noteq> 0 then
               (let (ret, w4) = slave_activate e p (emit [DbgPrint ''Need to reactivate a slave''] w3)
                in (Some p,
                    if ret \<noteq> LB_STATUS_SUCCESS \<and> ret \<noteq> LB_STATUS_ERROR_ALREADY
                    then emit [ErrPrint ''Failed to reactivate a slave''] w4 else w4))
             else if slave_loaded_instance w3 p = 0 then slave_unref e (Some p) w3
             else (Some p, w3))"

definition slave_deactivate :: "env \<Rightarrow> slave_ptr \<Rightarrow> world \<Rightarrow> slave_ptr option \<times> world" where
  "slave_deactivate e slave w =
     (if \<not> slave_is_activated w slave then
        (let w1 = emit [ErrPrint ''Slave is already deactivated''] w
         in if slave_loaded_instance w1 slave = 0 then slave_unref e (Some slave) w1
            else (Some slave, w1))
      else
        (let w1 = update_node slave (\<lambda>s. s\<lparr>state := SLAVE_REQUEST_TO_TERMINATE\<rparr>) w
         in if slave_pid w1 slave > 0 then
              (let ret = aul_terminate_pid e (slave_pid w1 slave);
                   w2 = emit [DbgPrint ''Terminate slave'', AulTerminatePid (slave_pid w1 slave)] w1
               in if ret < 0
                  then slave_deactivated e slave (emit [ErrPrint ''Terminate slave failed''] w2)
                  else (Some slave, w2))
            else (Some slave, w1)))"

text \<open>\<^verbatim>\<open>timersub\<close> of \<^verbatim>\<open><sys/time.h>\<close>.\<close>

definition timersub :: "timeval \<Rightarrow> timeval \<Rightarrow> timeval" where
  "timersub a b =
     (let sec = tv_sec a - tv_sec b; usec = tv_usec a - tv_usec b
      in if usec < 0 then \<lparr>tv_sec = sec - 1, tv_usec = usec + 1000000\<rparr>
         else \<lparr>tv_sec = sec, tv_usec = usec\<rparr>)"

text \<open>
  The reactivation policy of \<^verbatim>\<open>slave_deactivated_by_fault\<close>, which the source has twice:
  under \<^verbatim>\<open>_USE_ECORE_TIME_GET\<close> and without it. The result is the pair
  \<^verbatim>\<open>(reactivate, reactivate_instances)\<close> and the state. In the first variant
  \<^verbatim>\<open>faulted_at - slave->activated_at\<close> is a subtraction of doubles: \<open>double_sub\<close> is the
  difference as the machine rounds it. In the second \<^verbatim>\<open>rtv.tv_sec\<close> is converted to
  \<^verbatim>\<open>double\<close> for the comparison, which is exact for the seconds of a clock.
\<close>

definition fault_policy_ecore :: "env \<Rightarrow> slave_ptr \<Rightarrow> world \<Rightarrow> (int \<times> int) \<times> world" where
  "fault_policy_ecore e slave w =
     (let faulted_at = ecore_time_get e
      in if double_sub e faulted_at (activated_at (node w slave)) < MINIMUM_REACTIVATION_TIME e
         then
           (let w1 = update_node slave
                       (\<lambda>s. s\<lparr>critical_fault_count := critical_fault_count s + 1\<rparr>) w
            in if slave_loaded_instance w1 slave = 0
                  \<or> sint (SLAVE_MAX_LOAD e) \<le> sint (critical_fault_count (node w1 slave))
               then ((0, 0),
                     invoke_fault_cb e slave
                       (update_node slave (\<lambda>s. s\<lparr>critical_fault_count := 0\<rparr>)
                          (emit [ErrPrint ''Reactivation time is too fast and frequently occurred - Stop to auto reactivation''] w1)))
               else ((1, 1), update_node slave (\<lambda>s. s\<lparr>critical_fault_count := 0\<rparr>) w1))
         else ((1, 1), emit [ErrPrint ''Failed to get time of day''] w))"

definition fault_policy_timeofday :: "env \<Rightarrow> slave_ptr \<Rightarrow> world \<Rightarrow> (int \<times> int) \<times> world" where
  "fault_policy_timeofday e slave w =
     (case gettimeofday e of
        Some faulted_at \<Rightarrow>
          (let rtv = timersub faulted_at (activated_at_tv (node w slave))
           in if real_of_int (tv_sec rtv) < MINIMUM_REACTIVATION_TIME e then
                (let w1 = update_node slave
                            (\<lambda>s. s\<lparr>critical_fault_count := critical_fault_count s + 1\<rparr>) w
                 in if slave_loaded_instance w1 slave = 0
                       \<or> sint (SLAVE_MAX_LOAD e) \<le> sint (critical_fault_count (node w1 slave))
                    then ((0, 0),
                          invoke_fault_cb e slave
                            (update_node slave (\<lambda>s. s\<lparr>critical_fault_count := 0\<rparr>)
                               (emit [ErrPrint ''Reactivation time is too fast and frequently occurred - Stop to auto reactivation''] w1)))
                    else ((1, 1), w1))
              else ((1, 1), update_node slave (\<lambda>s. s\<lparr>critical_fault_count := 0\<rparr>) w))
      | None \<Rightarrow> ((1, 1), emit [ErrPrint ''Failed to get time of day''] w))"

definition slave_deactivated_by_fault ::
  "env \<Rightarrow> slave_ptr \<Rightarrow> world \<Rightarrow> slave_ptr option \<times> world"
where
  "slave_deactivated_by_fault e slave w =
     (if \<not> slave_is_activated w slave then
        (let w1 = emit [DbgPrint ''Deactivating in progress''] w
         in if slave_loaded_instance w1 slave = 0 then slave_unref e (Some slave) w1
            else (Some slave, w1))
      else
        (let w1 = update_node slave (\<lambda>s. s\<lparr>fault_count := fault_count s + 1\<rparr>) w;
             w2 = snd (fault_check_pkgs e slave w1);
             w3 = (if slave_pid w2 slave > 0 then
                     (let ret = aul_terminate_pid e (slave_pid w2 slave);
                          w' = emit [DbgPrint ''Try to terminate PID'',
                                     AulTerminatePid (slave_pid w2 slave)] w2
                      in if ret < 0 then emit [ErrPrint ''Terminate failed''] w' else w')
                   else w2);
             ((reactivate, reactivate_instances), w4) =
               (if USE_ECORE_TIME_GET e then fault_policy_ecore e slave w3
                else fault_policy_timeofday e slave w3);
             w5 = slave_set_reactivate_instances slave reactivate_instances
                    (slave_set_reactivation slave reactivate w4)
         in slave_deactivated e slave w5))"

text \<open>\<^verbatim>\<open>strcasecmp\<close> in the C locale: \<^verbatim>\<open>strcmp\<close> after \<^verbatim>\<open>tolower\<close> on every byte.\<close>

definition tolower :: "char \<Rightarrow> char" where
  "tolower c =
     (let n = (of_char c :: nat) in if 65 \<le> n \<and> n \<le> 90 then char_of (n + 32) else c)"

definition strcasecmp :: "string \<Rightarrow> string \<Rightarrow> int" where
  "strcasecmp a b = strcmp (map tolower a) (map tolower b)"

text \<open>
  \<^verbatim>\<open>slave_find_available\<close>: the loop over \<^verbatim>\<open>s_info.slave_list\<close>, with its
  \<^verbatim>\<open>continue\<close> and \<^verbatim>\<open>return\<close> statements in the order of the source. The function
  changes no state; its two debug lines are left out.
\<close>

fun find_available_loop ::
  "env \<Rightarrow> world \<Rightarrow> string \<Rightarrow> int \<Rightarrow> int \<Rightarrow> slave_ptr list \<Rightarrow> slave_ptr option"
where
  "find_available_loop e w abi_req secured_req network_req [] = None"
| "find_available_loop e w abi_req secured_req network_req (p # rest) =
     (let slave = node w p;
          continue = find_available_loop e w abi_req secured_req network_req rest
      in if secured slave \<noteq> secured_req then continue
         else if state slave = SLAVE_REQUEST_TO_TERMINATE \<and> loaded_instance slave = 0 then continue
         else if strcasecmp (abi slave) abi_req \<noteq> 0 then continue
         else if secured slave \<noteq> 0 then
           (if loaded_package slave = 0 then Some p else continue)
         else if network slave = network_req then
           (if strcasecmp abi_req (DEFAULT_ABI e) = 0 then
              (if sint (loaded_package slave) < sint (SLAVE_MAX_LOAD e) then Some p else continue)
            else Some p)
         else continue)"

definition slave_find_available :: "env \<Rightarrow> world \<Rightarrow> string \<Rightarrow> int \<Rightarrow> int \<Rightarrow> slave_ptr option" where
  "slave_find_available e w abi_req secured_req network_req =
     find_available_loop e w abi_req secured_req network_req (slave_list w)"

definition slave_load_package :: "slave_ptr \<Rightarrow> world \<Rightarrow> world" where
  "slave_load_package slave w =
     update_node slave (\<lambda>s. s\<lparr>loaded_package := loaded_package s + 1\<rparr>) w"

definition slave_unload_package :: "slave_ptr option \<Rightarrow> world \<Rightarrow> world" where
  "slave_unload_package slave w =
     (case slave of
        None \<Rightarrow> emit [ErrPrint ''Slave loaded package is not correct''] w
      | Some p \<Rightarrow>
          if loaded_package (node w p) = 0
          then emit [ErrPrint ''Slave loaded package is not correct''] w
          else update_node p (\<lambda>s. s\<lparr>loaded_package := loaded_package s - 1\<rparr>) w)"

definition slave_load_instance :: "slave_ptr \<Rightarrow> world \<Rightarrow> world" where
  "slave_load_instance slave w =
     emit [DbgPrint ''Instance'']
       (update_node slave (\<lambda>s. s\<lparr>loaded_instance := loaded_instance s + 1\<rparr>) w)"

definition slave_unload_instance ::
  "env \<Rightarrow> slave_ptr option \<Rightarrow> world \<Rightarrow> slave_ptr option \<times> world"
where
  "slave_unload_instance e slave w =
     (case slave of
        None \<Rightarrow> (None, emit [ErrPrint ''Slave loaded instance is not correct''] w)
      | Some p \<Rightarrow>
          if loaded_instance (node w p) = 0
          then (Some p, emit [ErrPrint ''Slave loaded instance is not correct''] w)
          else
            (let w1 = emit [DbgPrint ''Instance'']
                        (update_node p (\<lambda>s. s\<lparr>loaded_instance := loaded_instance s - 1\<rparr>) w)
             in if loaded_instance (node w1 p) = 0 \<and> slave_is_activated w1 p
                then slave_deactivate e p
                       (slave_set_reactivate_instances p 0 (slave_set_reactivation p 0 w1))
                else (Some p, w1)))"

section \<open>Definitions used to state the properties\<close>

text \<open>
  What the last step of \<^verbatim>\<open>fault_check_pkgs\<close> is expected to emit for the records it
  consumes, most recent first: the first one is the attribution (fault info on the package
  and the broadcast), every later one is a false log.
\<close>

fun attribution_effects :: "string \<Rightarrow> int \<Rightarrow> bool \<Rightarrow> fault_info list \<Rightarrow> effect list" where
  "attribution_effects nm pd checked [] = []"
| "attribution_effects nm pd checked (info # rest) =
     (if \<not> checked then
        [PackageSetFaultInfo (fi_pkgname info) (fi_timestamp info)
           (Some (fi_filename info)) (Some (fi_func info)),
         ClientBroadcast (fi_pkgname info) (fi_filename info) (fi_func info),
         ErrPrint ''Set fault'']
      else
        [DbgPrint ''Treated as a false log'',
         DumpFaultInfo nm pd (fi_pkgname info) (fi_filename info) (fi_func info)])
     @ attribution_effects nm pd True rest"

text \<open>A call record of the slave whose package the registry knows.\<close>

definition attributable :: "env \<Rightarrow> slave_ptr \<Rightarrow> fault_info \<Rightarrow> bool" where
  "attributable e slave info \<longleftrightarrow> fi_slave info = slave \<and> package_find e (fi_pkgname info)"

text \<open>
  \<^verbatim>\<open>fault_check_pkgs\<close> gets to its last step: neither the log file nor the secured-slave
  rule names a registered package.
\<close>

definition reaches_call_list :: "env \<Rightarrow> slave_ptr \<Rightarrow> world \<Rightarrow> bool" where
  "reaches_call_list e slave w \<longleftrightarrow>
     (case fst (check_log_file e slave w) of
        None \<Rightarrow> True
      | Some pkg \<Rightarrow> \<not> package_find e pkg)
     \<and> (case package_find_by_secured_slave e slave of
          None \<Rightarrow> True
        | Some pkg \<Rightarrow> \<not> package_find e pkg)"

text \<open>Two ABI tags that are equal up to the case of their letters.\<close>

definition same_abi :: "string \<Rightarrow> string \<Rightarrow> bool" where
  "same_abi a b \<longleftrightarrow> map tolower a = map tolower b"

text \<open>The five conditions of the selection rule of \<^verbatim>\<open>find_available\<close>, as the spec lists them.\<close>

definition available :: "env \<Rightarrow> string \<Rightarrow> int \<Rightarrow> int \<Rightarrow> slave_node \<Rightarrow> bool" where
  "available e abi_req secured_req network_req s \<longleftrightarrow>
     secured s = secured_req
     \<and> \<not> (state s = SLAVE_REQUEST_TO_TERMINATE \<and> loaded_instance s = 0)
     \<and> same_abi (abi s) abi_req
     \<and> (if secured s \<noteq> 0 then loaded_package s = 0
        else network s = network_req
             \<and> (\<not> same_abi (abi s) (DEFAULT_ABI e)
                  \<or> sint (loaded_package s) < sint (SLAVE_MAX_LOAD e)))"

definition is_launch :: "effect \<Rightarrow> bool" where
  "is_launch x = (case x of AulLaunchApp pkg param \<Rightarrow> True | _ \<Rightarrow> False)"

definition is_rpc :: "effect \<Rightarrow> bool" where
  "is_rpc x = (case x of SlaveRpcAsyncRequest slave cmd t \<Rightarrow> True | _ \<Rightarrow> False)"

text \<open>
  Every record of the second state was a record of the first, with the same two load
  counters; and the invariant that no load counter is negative.
\<close>

definition keeps_loads :: "world \<Rightarrow> world \<Rightarrow> bool" where
  "keeps_loads w w' \<longleftrightarrow>
     (\<forall>q. case nodes w' q of
            None \<Rightarrow> True
          | Some s' \<Rightarrow>
              (case nodes w q of
                 None \<Rightarrow> False
               | Some s \<Rightarrow> loaded_instance s' = loaded_instance s
                           \<and> loaded_package s' = loaded_package s))"

definition loads_nonneg :: "world \<Rightarrow> bool" where
  "loads_nonneg w \<longleftrightarrow>
     (\<forall>q. case nodes w q of
            None \<Rightarrow> True
          | Some s \<Rightarrow> 0 \<le> sint (loaded_instance s) \<and> 0 \<le> sint (loaded_package s))"

section \<open>Sample states\<close>

text \<open>
  A configuration with the defaults of the daemon, a registry that knows the packages
  \<open>foo\<close> and \<open>bar\<close>, and one unsecured slave at address 1 running as process 200.
\<close>

definition sample_env :: env where
  "sample_env =
     \<lparr>BUFSIZ = 8192, SLAVE_MAX_LOAD = 30, SLAVE_RELAUNCH_COUNT = 3,
      SLAVE_ACTIVATE_TIME = 30, SLAVE_RELAUNCH_TIME = 3, SLAVE_TTL = 30,
      MINIMUM_REACTIVATION_TIME = 10, DEFAULT_ABI = ''c'', DEBUG_MODE = False,
      USE_ECORE_TIME_GET = True, SLAVE_NEED_TO_REACTIVATE = 1,
      AUL_R_ENOLAUNCHPAD = -10, AUL_R_EILLACC = -8, AUL_R_EINVAL = -4, AUL_R_ENOINIT = -2,
      AUL_R_ERROR = -1, AUL_R_ECOMM = -3, AUL_R_ETERMINATING = -9, AUL_R_ECANCELED = -5,
      AUL_R_ETIMEOUT = -6,
      package_find = (\<lambda>pkg. pkg = ''foo'' \<or> pkg = ''bar''),
      package_find_by_secured_slave = (\<lambda>slave. None),
      util_timestamp = 7, ecore_time_get = 7, double_sub = (\<lambda>a b. a - b),
      gettimeofday = Some \<lparr>tv_sec = 7, tv_usec = 0\<rparr>,
      alloc_ok = True, packet_create_ok = True, bundle_create_ok = True,
      ecore_timer_add = (\<lambda>t cb slave. Some 1),
      aul_launch_app = (\<lambda>pkg param. 300),
      aul_terminate_pid = (\<lambda>p. 0),
      evt_ret = (\<lambda>ev. 0),
      slave_rpc_async_request = (\<lambda>slave cmd. LB_STATUS_SUCCESS),
      xmonitor_is_paused = False\<rparr>"

definition sample_slave :: slave_node where
  "sample_slave =
     \<lparr>name = ''slave0'', abi = ''c'', pkgname = ''com.samsung.data-provider-slave'',
      secured = 0, refcnt = 2, fault_count = 0, critical_fault_count = 0,
      state = SLAVE_RESUMED, network = 0, loaded_instance = 1, loaded_package = 1,
      reactivate_instances = 0, reactivate_slave = 0, pid = 200,
      event_activate_list = [], event_deactivate_list = [], event_delete_list = [],
      event_fault_list = [], event_pause_list = [], event_resume_list = [],
      data_list = [], ttl_timer = None, activate_timer = None, relaunch_timer = None,
      relaunch_count = 3, activated_at = 5, activated_at_tv = \<lparr>tv_sec = 5, tv_usec = 0\<rparr>\<rparr>"

definition sample_world :: world where
  "sample_world =
     \<lparr>nodes = (\<lambda>p. if p = 1 then Some sample_slave else None), slave_list = [1],
      deactivate_all_refcnt = 0, call_list = [], fault_mark_count = 0,
      log_files = (\<lambda>p. None), trace = []\<rparr>"

definition call_record :: "slave_ptr \<Rightarrow> string \<Rightarrow> string \<Rightarrow> string \<Rightarrow> fault_info" where
  "call_record slave pkg filename func =
     \<lparr>fi_slave = slave, fi_timestamp = 7, fi_pkgname = pkg, fi_filename = filename,
      fi_func = func\<rparr>"



text \<open>Scenario 4: two calls of the slave are pending and there is no log file.\<close>

definition two_calls_world :: world where
  "two_calls_world =
     sample_world
       \<lparr>call_list := [call_record 1 ''foo'' ''f.c'' ''do_work'',
                      call_record 1 ''bar'' ''g.c'' ''other''],
        fault_mark_count := 2\<rparr>"

text \<open>The most recent pending call names a package the registry does not know.\<close>

definition unregistered_call_world :: world where
  "unregistered_call_world =
     sample_world
       \<lparr>call_list := [call_record 1 ''foo'' ''f.c'' ''do_work'',
                      call_record 1 ''zzz'' ''g.c'' ''other''],
        fault_mark_count := 2\<rparr>"

text \<open>The same two pending calls, and a log file that names \<open>foo\<close>.\<close>

definition logged_unregistered_world :: world where
  "logged_unregistered_world =
     unregistered_call_world
       \<lparr>log_files := (\<lambda>p. if p = 200 then Some ''liblive-foo.so'' else None)\<rparr>"

text \<open>
  A crash storm: \<^verbatim>\<open>SLAVE_MAX_LOAD\<close> is 2, the slave has one instance loaded, one fault
  observer and one deactivate observer that asks for reactivation; every crash comes two
  seconds after the activation.
\<close>

definition fault_ev :: event where
  "fault_ev = \<lparr>ev_slave = 1, evt_cb = 10, cbdata = 0\<rparr>"

definition deactivate_ev :: event where
  "deactivate_ev = \<lparr>ev_slave = 1, evt_cb = 20, cbdata = 0\<rparr>"

definition storm_env :: "bool \<Rightarrow> env" where
  "storm_env ecore =
     sample_env\<lparr>SLAVE_MAX_LOAD := 2, USE_ECORE_TIME_GET := ecore,
                evt_ret := (\<lambda>ev. if ev = deactivate_ev then 1 else 0)\<rparr>"

definition storm_slave :: slave_node where
  "storm_slave =
     sample_slave\<lparr>event_fault_list := [fault_ev], event_deactivate_list := [deactivate_ev]\<rparr>"

definition slave_world :: "slave_node \<Rightarrow> effect list \<Rightarrow> world" where
  "slave_world s tr =
     sample_world\<lparr>nodes := (\<lambda>p. if p = 1 then Some s else None), trace := tr\<rparr>"

definition storm_world :: world where
  "storm_world = slave_world storm_slave []"

text \<open>What a crash of process \<open>p\<close> and the relaunch that follows add to the trace.\<close>

definition sample_launch :: effect where
  "sample_launch =
     AulLaunchApp ''com.samsung.data-provider-slave''
       [(''BUNDLE_SLAVE_NAME'', ''slave0''), (''BUNDLE_SLAVE_SECURED'', ''false''),
        (''BUNDLE_SLAVE_ABI'', ''c'')]"

definition crash_effects :: "int \<Rightarrow> effect list" where
  "crash_effects p =
     [ErrPrint ''No log file found'', DbgPrint ''Try to terminate PID'', AulTerminatePid p]"

definition relaunch_effects :: "effect list" where
  "relaunch_effects =
     [InvokeCb deactivate_ev, DbgPrint ''Need to reactivate a slave'', sample_launch,
      DbgPrint ''Slave is launched'', EcoreTimerAdd 30 Activate_timer_cb 1]"

text \<open>Three slaves in the registry, for the selection rule.\<close>

definition registry_world :: world where
  "registry_world =
     sample_world
       \<lparr>nodes := (\<lambda>p. if p = 1 then Some (sample_slave\<lparr>loaded_package := 30\<rparr>)
                       else if p = 2 then Some (sample_slave\<lparr>name := ''slave1'', abi := ''C'',
                                                  state := SLAVE_REQUEST_TO_TERMINATE,
                                                  loaded_instance := 0\<rparr>)
                       else if p = 3 then Some (sample_slave\<lparr>name := ''slave2'', abi := ''C'',
                                                  loaded_package := 29\<rparr>)
                       else None),
        slave_list := [1, 2, 3]\<rparr>"

text \<open>The registry holds the only reference to the running slave.\<close>

definition last_ref_world :: world where
  "last_ref_world =
     sample_world\<lparr>nodes := (\<lambda>p. if p = 1 then Some (sample_slave\<lparr>refcnt := 1\<rparr>) else None)\<rparr>"

text \<open>The slave has nothing loaded.\<close>

definition idle_world :: world where
  "idle_world =
     sample_world
       \<lparr>nodes := (\<lambda>p. if p = 1
                       then Some (sample_slave\<lparr>loaded_instance := 0, loaded_package := 0\<rparr>)
                       else None)\<rparr>"

section \<open>Basic facts\<close>

lemma strcmp_eq_0: "strcmp a b = 0 \<longleftrightarrow> a = b"
  by (induction a b rule: strcmp.induct) auto

lemma strcasecmp_eq_0: "strcasecmp a b = 0 \<longleftrightarrow> same_abi a b"
  by (simp add: strcasecmp_def strcmp_eq_0 same_abi_def)

lemma read_line_Cons:
  "read_line n (c # cs) =
     (if n = 0 then [] else if c = CHR 0x0A then [c] else c # read_line (n - 1) cs)"
  by (cases n) auto

lemma read_line_Nil: "read_line n [] = []"
  by (cases n) auto


lemma node_update_node [simp]: "node (update_node p f w) p = f (node w p)"
  by (simp add: node_def update_node_def)

lemma node_emit [simp]: "node (emit es w) p = node w p"
  by (simp add: node_def emit_def)

lemma nodes_emit [simp]: "nodes (emit es w) = nodes w"
  by (simp add: emit_def)

lemmas sample_defs = sample_env_def sample_world_def sample_slave_def call_record_def

lemmas fault_manager_defs =
  fault_check_pkgs_def check_log_file_def fgets_def c_str_def slave_pid_def slave_name_def
  node_def emit_def attribute_to_package_def remove_slave_calls_def check_call_list_def
  clear_log_file_def fault_broadcast_info_def dump_fault_info_def Let_def

lemmas slave_life_defs =
  slave_deactivated_by_fault_def slave_is_activated_def update_node_def
  slave_loaded_instance_def fault_policy_ecore_def fault_policy_timeofday_def
  invoke_fault_cb_def slave_set_reactivation_def slave_set_reactivate_instances_def
  slave_deactivated_def timer_dels_def invoke_deactivate_cb_def slave_unref_def
  destroy_slave_node_def slave_need_to_reactivate_def slave_activate_def slave_state_def
  slave_ref_def timersub_def

section \<open>The fault manager\<close>

subsection \<open>The crash-log probe\<close>


lemma check_log_file_frame:
  "call_list (snd (check_log_file e slave w)) = call_list w"
  "nodes (snd (check_log_file e slave w)) = nodes w"
  "fault_mark_count (snd (check_log_file e slave w)) = fault_mark_count w"
  by (auto simp: check_log_file_def emit_def Let_def split: option.splits)




subsection \<open>The fault-mark counter\<close>

lemma attribute_to_package_count: "fault_mark_count (attribute_to_package e slave pkg w) = 0"
  by (simp add: attribute_to_package_def clear_log_file_def emit_def Let_def)

lemma check_call_list_count: "fault_mark_count (check_call_list e slave w) = 0"
  by (simp add: check_call_list_def clear_log_file_def emit_def Let_def split: prod.splits)

text \<open>
  C4. Whatever the slave, the call list, the log files and the counter were before,
  \<^verbatim>\<open>fault_mark_count\<close> is zero in the state \<^verbatim>\<open>fault_check_pkgs\<close> returns: each of its three
  return paths assigns it.
\<close>

theorem fault_check_pkgs_resets_mark_count:
  "fault_mark_count (snd (fault_check_pkgs e slave w)) = 0"
  by (simp add: fault_check_pkgs_def attribute_to_package_count check_call_list_count
      split: prod.splits option.splits)

theorem fault_check_pkgs_resets_mark_count_witness:
  "fault_mark_count two_calls_world = 2
   \<and> fault_mark_count (snd (fault_check_pkgs sample_env 1 two_calls_world)) = 0"
  using fault_check_pkgs_resets_mark_count [of sample_env 1 two_calls_world]
  by (simp add: two_calls_world_def sample_world_def)

subsection \<open>Call and return\<close>

lemma remove_first_call_append:
  "remove_first_call slave pkg filename func (cl @ [x]) =
     (case remove_first_call slave pkg filename func cl of
        Some r \<Rightarrow> Some (r @ [x])
      | None \<Rightarrow> if same_call slave pkg filename func x then Some cl else None)"
  by (induction cl) (auto split: option.splits)

lemma same_call_self:
  "same_call slave pkg filename func
     \<lparr>fi_slave = slave, fi_timestamp = t, fi_pkgname = pkg, fi_filename = filename,
      fi_func = func\<rparr>"
  by (simp add: same_call_def strcmp_eq_0)

lemma remove_first_call_None_iff:
  "remove_first_call slave pkg filename func cl = None \<longleftrightarrow>
     (\<forall>info \<in> set cl. \<not> same_call slave pkg filename func info)"
  by (induction cl) auto

text \<open>
  C5, as amended. The claim says that the return removes the record the call appended even
  when an identical record stood earlier in the list; \<^verbatim>\<open>fault_func_ret\<close> walks the list
  from its head and removes the first match, so the earlier record goes and the list
  changes, as the evaluation after the theorem shows. What holds, when the
  allocations of \<^verbatim>\<open>fault_func_call\<close> succeed: both calls report success and
  \<^verbatim>\<open>fault_mark_count\<close> is back at its value; if no record with the same slave, package,
  file and function was in the list, the whole state is as before; and if there was one,
  the list is the old one without its first such record, followed by the new record.
\<close>

theorem fault_func_call_ret_roundtrip:
  fixes e slave pkg filename func w
  assumes "alloc_ok e"
  defines "w1 \<equiv> snd (fault_func_call e slave pkg filename func w)"
  defines "w2 \<equiv> snd (fault_func_ret slave pkg filename func w1)"
  shows "fst (fault_func_call e slave pkg filename func w) = LB_STATUS_SUCCESS
       \<and> fst (fault_func_ret slave pkg filename func w1) = LB_STATUS_SUCCESS
       \<and> fault_mark_count w2 = fault_mark_count w
       \<and> ((\<forall>info \<in> set (call_list w). \<not> same_call slave pkg filename func info) \<longrightarrow> w2 = w)
       \<and> (\<forall>rest. remove_first_call slave pkg filename func (call_list w) = Some rest \<longrightarrow>
            call_list w2 = rest @ [\<lparr>fi_slave = slave, fi_timestamp = util_timestamp e,
                                   fi_pkgname = pkg, fi_filename = filename, fi_func = func\<rparr>])"
proof -
  let ?info = "\<lparr>fi_slave = slave, fi_timestamp = util_timestamp e,
                fi_pkgname = pkg, fi_filename = filename, fi_func = func\<rparr>"
  have c: "fault_func_call e slave pkg filename func w =
             (LB_STATUS_SUCCESS, w\<lparr>call_list := call_list w @ [?info],
                                   fault_mark_count := fault_mark_count w + 1\<rparr>)"
    using assms(1) by (simp add: fault_func_call_def)
  show ?thesis
  proof (cases "remove_first_call slave pkg filename func (call_list w)")
    case None
    then have "\<forall>info \<in> set (call_list w). \<not> same_call slave pkg filename func info"
      by (simp add: remove_first_call_None_iff)
    with None show ?thesis
      unfolding w2_def w1_def
      by (simp add: c fault_func_ret_def remove_first_call_append same_call_self)
  next
    case (Some rest)
    then have "\<not> (\<forall>info \<in> set (call_list w). \<not> same_call slave pkg filename func info)"
      using remove_first_call_None_iff [of slave pkg filename func "call_list w"] by simp
    with Some show ?thesis
      unfolding w2_def w1_def
      by (auto simp: c fault_func_ret_def remove_first_call_append)
  qed
qed

theorem fault_func_call_ret_roundtrip_witness:
  "snd (fault_func_ret 2 ''foo'' ''f.c'' ''do_work''
         (snd (fault_func_call sample_env 2 ''foo'' ''f.c'' ''do_work'' two_calls_world)))
     = two_calls_world
   \<and> call_list (snd (fault_func_ret 1 ''foo'' ''f.c'' ''do_work''
         (snd (fault_func_call sample_env 1 ''foo'' ''f.c'' ''do_work'' two_calls_world))))
     = [call_record 1 ''bar'' ''g.c'' ''other'', call_record 1 ''foo'' ''f.c'' ''do_work'']"
proof -
  have a: "alloc_ok sample_env"
    by (simp add: sample_env_def)
  have n: "\<forall>info \<in> set (call_list two_calls_world). \<not> same_call 2 ''foo'' ''f.c'' ''do_work'' info"
    by (simp add: two_calls_world_def sample_defs same_call_def)
  have r: "remove_first_call 1 ''foo'' ''f.c'' ''do_work'' (call_list two_calls_world)
             = Some [call_record 1 ''bar'' ''g.c'' ''other'']"
    by (simp add: two_calls_world_def sample_defs same_call_def)
  have t: "util_timestamp sample_env = 7"
    by (simp add: sample_env_def)
  show ?thesis
    using fault_func_call_ret_roundtrip [OF a, of 2 "''foo''" "''f.c''" "''do_work''" two_calls_world]
      fault_func_call_ret_roundtrip [OF a, of 1 "''foo''" "''f.c''" "''do_work''" two_calls_world]
      n r
    by (simp add: t call_record_def)
qed

text \<open>
  A call of \<open>foo\<close> is pending, then one of \<open>bar\<close>. The slave enters \<open>foo\<close> again and returns
  from it: the list is \<open>bar\<close>, \<open>foo\<close> and no longer \<open>foo\<close>, \<open>bar\<close>.
\<close>

theorem fault_func_ret_removes_earlier_counterexample:
  "call_list two_calls_world
     = [call_record 1 ''foo'' ''f.c'' ''do_work'', call_record 1 ''bar'' ''g.c'' ''other'']
   \<and> call_list (snd (fault_func_ret 1 ''foo'' ''f.c'' ''do_work''
         (snd (fault_func_call sample_env 1 ''foo'' ''f.c'' ''do_work'' two_calls_world))))
     = [call_record 1 ''bar'' ''g.c'' ''other'', call_record 1 ''foo'' ''f.c'' ''do_work'']
   \<and> call_list (snd (fault_func_ret 1 ''foo'' ''f.c'' ''do_work''
         (snd (fault_func_call sample_env 1 ''foo'' ''f.c'' ''do_work'' two_calls_world))))
     \<noteq> call_list two_calls_world"
  by (simp add: two_calls_world_def sample_defs fault_func_call_def fault_func_ret_def
      same_call_def)

subsection \<open>The shadow call stack\<close>

lemma walk_call_list_kept:
  "fst (walk_call_list e nm pd slave checked cl) = [info \<leftarrow> cl. \<not> attributable e slave info]"
  by (induction cl arbitrary: checked) (simp_all add: attributable_def split_beta)

lemma walk_call_list_effects:
  "packet_create_ok e \<Longrightarrow>
   [x \<leftarrow> snd (walk_call_list e nm pd slave checked cl). x \<noteq> ErrPrint ''Failed to find a package'']
     = attribution_effects nm pd checked [info \<leftarrow> cl. attributable e slave info]"
  by (induction cl arbitrary: checked)
     (simp_all add: attributable_def fault_broadcast_info_def dump_fault_info_def split_beta)

lemma fault_check_pkgs_last_step:
  "reaches_call_list e slave w \<Longrightarrow>
   fault_check_pkgs e slave w = (0, check_call_list e slave (snd (check_log_file e slave w)))"
  by (auto simp: reaches_call_list_def fault_check_pkgs_def split: prod.splits option.splits)

text \<open>
  What the last step does, for every state in which \<^verbatim>\<open>fault_check_pkgs\<close> gets to it and
  the broadcast packet can be created. Apart from the log line of each skipped record, it
  emits the attribution to the most recently appended record of the slave that names a
  registered package (fault info, then the broadcast of that record's package, file and
  function), followed by a false-log dump for every other such record, most recent first.
  The call list loses exactly those records: the records of other slaves stay, and so do
  the records of this slave whose package the registry does not know. \<open>w1\<close> is the state
  after the crash-log probe.
\<close>

lemma fault_check_pkgs_last_step_effects:
  assumes "reaches_call_list e slave w"
    and "packet_create_ok e"
  defines "w1 \<equiv> snd (check_log_file e slave w)"
  defines "w' \<equiv> snd (fault_check_pkgs e slave w)"
  shows "[x \<leftarrow> drop (length (trace w1)) (trace w'). x \<noteq> ErrPrint ''Failed to find a package'']
           = attribution_effects (slave_name w slave) (slave_pid w slave) False
               (rev [info \<leftarrow> call_list w. attributable e slave info])
         \<and> call_list w' = [info \<leftarrow> call_list w. \<not> attributable e slave info]
         \<and> [info \<leftarrow> call_list w'. fi_slave info = slave]
             = [info \<leftarrow> call_list w. fi_slave info = slave \<and> \<not> package_find e (fi_pkgname info)]
         \<and> [info \<leftarrow> call_list w'. fi_slave info \<noteq> slave]
             = [info \<leftarrow> call_list w. fi_slave info \<noteq> slave]"
proof -
  obtain kept es where k:
    "walk_call_list e (slave_name w1 slave) (slave_pid w1 slave) slave False (rev (call_list w1))
       = (kept, es)"
    by (cases "walk_call_list e (slave_name w1 slave) (slave_pid w1 slave) slave False
                 (rev (call_list w1))")
  have nm: "slave_name w1 slave = slave_name w slave" "slave_pid w1 slave = slave_pid w slave"
    by (simp_all add: w1_def slave_name_def slave_pid_def node_def check_log_file_frame)
  have cl: "call_list w1 = call_list w"
    by (simp add: w1_def check_log_file_frame)
  have w': "w' = clear_log_file slave
                   ((emit es (w1\<lparr>call_list := rev kept\<rparr>))\<lparr>fault_mark_count := 0\<rparr>)"
    using assms(1) k
    by (simp add: w'_def w1_def fault_check_pkgs_last_step check_call_list_def Let_def)
  have tr: "trace w' = trace w1 @ es" and cl': "call_list w' = rev kept"
    by (simp_all add: w' clear_log_file_def emit_def)
  have kept: "kept = [info \<leftarrow> rev (call_list w). \<not> attributable e slave info]"
    using walk_call_list_kept [of e "slave_name w1 slave" "slave_pid w1 slave" slave False
        "rev (call_list w1)"] k cl
    by simp
  have es: "[x \<leftarrow> es. x \<noteq> ErrPrint ''Failed to find a package'']
              = attribution_effects (slave_name w slave) (slave_pid w slave) False
                  [info \<leftarrow> rev (call_list w). attributable e slave info]"
    using walk_call_list_effects [OF assms(2), of "slave_name w1 slave" "slave_pid w1 slave"
        slave False "rev (call_list w1)"] k cl nm
    by simp
  have a: "call_list w' = [info \<leftarrow> call_list w. \<not> attributable e slave info]"
    by (simp add: cl' kept rev_filter [symmetric])
  have b: "[info \<leftarrow> call_list w'. fi_slave info = slave]
             = [info \<leftarrow> call_list w. fi_slave info = slave \<and> \<not> package_find e (fi_pkgname info)]"
    unfolding a filter_filter
    by (rule filter_cong) (auto simp: attributable_def)
  have c: "[info \<leftarrow> call_list w'. fi_slave info \<noteq> slave]
             = [info \<leftarrow> call_list w. fi_slave info \<noteq> slave]"
    unfolding a filter_filter
    by (rule filter_cong) (auto simp: attributable_def)
  show ?thesis
    using es a b c by (simp add: tr rev_filter)
qed

text \<open>
  Scenario 4 of the spec: two calls of the slave are pending, into \<open>foo\<close> and then into
  \<open>bar\<close>, both registered, and there is no log file. The fault is broadcast for \<open>bar\<close>, the
  call into \<open>foo\<close> is dumped as a false log, and the call list is empty afterwards.
\<close>

lemma fault_check_pkgs_two_calls:
  "reaches_call_list sample_env 1 two_calls_world
   \<and> trace (snd (fault_check_pkgs sample_env 1 two_calls_world)) =
       [ErrPrint ''No log file found'',
        PackageSetFaultInfo ''bar'' 7 (Some ''g.c'') (Some ''other''),
        ClientBroadcast ''bar'' ''g.c'' ''other'',
        ErrPrint ''Set fault'',
        DbgPrint ''Treated as a false log'',
        DumpFaultInfo ''slave0'' 200 ''foo'' ''f.c'' ''do_work'']
   \<and> call_list (snd (fault_check_pkgs sample_env 1 two_calls_world)) = []"
  by (simp add: reaches_call_list_def two_calls_world_def fault_manager_defs sample_defs)

text \<open>
  With the same two records as in the state evaluated below and a log file that names
  \<open>foo\<close>, the loop of the first step unlinks every record of the slave, the one into the
  unknown package \<open>zzz\<close> included.
\<close>

lemma fault_check_pkgs_first_step_removes_unregistered:
  "call_list logged_unregistered_world = call_list unregistered_call_world
   \<and> trace (snd (fault_check_pkgs sample_env 1 logged_unregistered_world)) =
       [PackageSetFaultInfo ''foo'' 7 None None,
        DumpFaultInfo ''slave0'' 200 ''foo'' [] [],
        ErrPrint ''Set fault'',
        ClientBroadcast ''foo'' [] []]
   \<and> call_list (snd (fault_check_pkgs sample_env 1 logged_unregistered_world)) = []"
  by (simp add: logged_unregistered_world_def unregistered_call_world_def fault_manager_defs
      sample_defs read_line_Cons read_line_Nil)

text \<open>
  C6, evaluated where the code departs from it. The slave at address 1 has two pending
  calls, the older into \<open>foo\<close> and the most recent into \<open>zzz\<close>, a package the registry does
  not know; there is no log file and the slave is not secured, so \<^verbatim>\<open>fault_check_pkgs\<close>
  gets to its last step. The record of \<open>zzz\<close> is skipped by \<^verbatim>\<open>continue\<close>, which also
  jumps over the statement that unlinks it: the fault is attributed to the older call into
  \<open>foo\<close> and broadcast for it, and the record of \<open>zzz\<close>, a record of the crashing slave, is
  still in the call list when the function has returned 0.
\<close>

theorem fault_check_pkgs_skips_unregistered_call:
  "reaches_call_list sample_env 1 unregistered_call_world
   \<and> call_list unregistered_call_world
       = [call_record 1 ''foo'' ''f.c'' ''do_work'', call_record 1 ''zzz'' ''g.c'' ''other'']
   \<and> fst (fault_check_pkgs sample_env 1 unregistered_call_world) = 0
   \<and> trace (snd (fault_check_pkgs sample_env 1 unregistered_call_world)) =
       [ErrPrint ''No log file found'',
        ErrPrint ''Failed to find a package'',
        PackageSetFaultInfo ''foo'' 7 (Some ''f.c'') (Some ''do_work''),
        ClientBroadcast ''foo'' ''f.c'' ''do_work'',
        ErrPrint ''Set fault'']
   \<and> call_list (snd (fault_check_pkgs sample_env 1 unregistered_call_world))
       = [call_record 1 ''zzz'' ''g.c'' ''other'']"
  by (simp add: reaches_call_list_def unregistered_call_world_def fault_manager_defs sample_defs)

theorem fault_check_pkgs_skips_unregistered_call_witness:
  "[info \<leftarrow> call_list (snd (fault_check_pkgs sample_env 1 unregistered_call_world)).
      fi_slave info = 1]
     = [call_record 1 ''zzz'' ''g.c'' ''other'']"
  using fault_check_pkgs_skips_unregistered_call by (simp add: call_record_def)

section \<open>The slave registry and supervisor\<close>

subsection \<open>Selection of a slave\<close>

lemma find_available_loop_find:
  "find_available_loop e w abi_req secured_req network_req ps =
     find (\<lambda>p. available e abi_req secured_req network_req (node w p)) ps"
  by (induction ps) (auto simp: available_def strcasecmp_eq_0 same_abi_def Let_def)

text \<open>
  C3. \<^verbatim>\<open>slave_find_available\<close> returns the first slave of the registry list, in list
  order, that meets the five conditions of \<open>available\<close>: its secured flag equals the
  request; it is not in \<^verbatim>\<open>RequestedTerminate\<close> with no loaded instance; its abi equals the
  requested one up to case; if it is secured it has no loaded package; otherwise its network
  flag equals the request and its abi differs from \<^verbatim>\<open>DEFAULT_ABI\<close> up to case or its
  \<^verbatim>\<open>loaded_package\<close> is below \<^verbatim>\<open>SLAVE_MAX_LOAD\<close>. It returns \<open>None\<close> exactly when no slave
  of the list meets them (\<open>find\<close>).
\<close>

theorem slave_find_available_first_fit:
  "slave_find_available e w abi_req secured_req network_req =
     find (\<lambda>p. available e abi_req secured_req network_req (node w p)) (slave_list w)"
  by (simp add: slave_find_available_def find_available_loop_find)

theorem slave_find_available_first_fit_witness:
  "slave_find_available sample_env registry_world ''c'' 0 0 = Some 3
   \<and> slave_find_available sample_env registry_world ''c'' 0 1 = None"
proof -
  have n: "node registry_world 1 = sample_slave\<lparr>loaded_package := 30\<rparr>"
    "node registry_world 2 = sample_slave\<lparr>name := ''slave1'', abi := ''C'',
        state := SLAVE_REQUEST_TO_TERMINATE, loaded_instance := 0\<rparr>"
    "node registry_world 3 = sample_slave\<lparr>name := ''slave2'', abi := ''C'',
        loaded_package := 29\<rparr>"
    by (simp_all add: registry_world_def sample_world_def node_def)
  have l: "slave_list registry_world = [1, 2, 3]"
    by (simp add: registry_world_def sample_world_def)
  have c: "same_abi ''c'' ''c''" "same_abi ''C'' ''c''"
    by code_simp+
  have a: "available sample_env ''c'' 0 0 (node registry_world 1) = False"
    "available sample_env ''c'' 0 0 (node registry_world 2) = False"
    "available sample_env ''c'' 0 0 (node registry_world 3) = True"
    "available sample_env ''c'' 0 1 (node registry_world 1) = False"
    "available sample_env ''c'' 0 1 (node registry_world 2) = False"
    "available sample_env ''c'' 0 1 (node registry_world 3) = False"
    by (simp_all add: n available_def c sample_slave_def sample_env_def del: One_nat_def)
  show ?thesis
    using slave_find_available_first_fit [of sample_env registry_world "''c''" 0 0]
      slave_find_available_first_fit [of sample_env registry_world "''c''" 0 1]
    by (simp add: a l del: One_nat_def)
qed

subsection \<open>Activation of a running slave\<close>

text \<open>
  C7. For a slave whose \<^verbatim>\<open>pid\<close> is set, and for a slave in \<^verbatim>\<open>RequestedLaunch\<close>,
  \<^verbatim>\<open>slave_activate\<close> returns \<^verbatim>\<open>LB_STATUS_ERROR_ALREADY\<close>. In the first case the only
  change is that \<^verbatim>\<open>reactivate_slave\<close> becomes 1 when the state is
  \<^verbatim>\<open>RequestedTerminate\<close>; in the second a debug line is printed. The state, the pid and the
  three timers of the slave are as before, and the launcher is not called.
\<close>

theorem slave_activate_already:
  assumes "pid (node w slave) \<noteq> -1 \<or> state (node w slave) = SLAVE_REQUEST_TO_LAUNCH"
  shows "slave_activate e slave w =
           (LB_STATUS_ERROR_ALREADY,
            if pid (node w slave) \<noteq> -1
            then (if state (node w slave) = SLAVE_REQUEST_TO_TERMINATE
                  then update_node slave (\<lambda>s. s\<lparr>reactivate_slave := 1\<rparr>) w else w)
            else emit [DbgPrint ''Slave is already launched: but the AUL is timed out''] w)
         \<and> state (node (snd (slave_activate e slave w)) slave) = state (node w slave)
         \<and> pid (node (snd (slave_activate e slave w)) slave) = pid (node w slave)
         \<and> ttl_timer (node (snd (slave_activate e slave w)) slave) = ttl_timer (node w slave)
         \<and> activate_timer (node (snd (slave_activate e slave w)) slave)
             = activate_timer (node w slave)
         \<and> relaunch_timer (node (snd (slave_activate e slave w)) slave)
             = relaunch_timer (node w slave)
         \<and> [x \<leftarrow> trace (snd (slave_activate e slave w)). is_launch x]
             = [x \<leftarrow> trace w. is_launch x]"
  using assms
  by (auto simp: slave_activate_def slave_pid_def slave_state_def slave_set_reactivation_def
      Let_def emit_def update_node_def node_def is_launch_def)

theorem slave_activate_already_witness:
  "slave_activate sample_env 1 sample_world = (LB_STATUS_ERROR_ALREADY, sample_world)
   \<and> slave_activate sample_env 1
        (update_node 1 (\<lambda>s. s\<lparr>state := SLAVE_REQUEST_TO_TERMINATE\<rparr>) sample_world)
      = (LB_STATUS_ERROR_ALREADY,
         update_node 1 (\<lambda>s. s\<lparr>state := SLAVE_REQUEST_TO_TERMINATE, reactivate_slave := 1\<rparr>)
           sample_world)"
proof -
  let ?w = "update_node 1 (\<lambda>s. s\<lparr>state := SLAVE_REQUEST_TO_TERMINATE\<rparr>) sample_world"
  have a: "pid (node sample_world 1) \<noteq> -1 \<or> state (node sample_world 1) = SLAVE_REQUEST_TO_LAUNCH"
    by (simp add: sample_world_def sample_slave_def node_def)
  have b: "pid (node ?w 1) \<noteq> -1 \<or> state (node ?w 1) = SLAVE_REQUEST_TO_LAUNCH"
    by (simp add: sample_world_def sample_slave_def node_def update_node_def del: One_nat_def)
  have s: "state (node sample_world 1) = SLAVE_RESUMED" "pid (node sample_world 1) = 200"
    by (simp_all add: sample_world_def sample_slave_def node_def)
  have u: "update_node 1 (\<lambda>s. s\<lparr>reactivate_slave := 1\<rparr>) ?w
             = update_node 1 (\<lambda>s. s\<lparr>state := SLAVE_REQUEST_TO_TERMINATE, reactivate_slave := 1\<rparr>)
                 sample_world"
    by (simp add: update_node_def node_def fun_eq_iff)
  show ?thesis
    using slave_activate_already [OF a, of sample_env] slave_activate_already [OF b, of sample_env]
    by (simp add: s u del: One_nat_def)
qed

subsection \<open>Pause and resume\<close>

text \<open>
  C8. \<^verbatim>\<open>slave_resume\<close> on a slave in \<^verbatim>\<open>Resumed\<close> or \<^verbatim>\<open>RequestedResume\<close>, and
  \<^verbatim>\<open>slave_pause\<close> on a slave in \<^verbatim>\<open>Paused\<close> or \<^verbatim>\<open>RequestedPause\<close>, return
  \<^verbatim>\<open>LB_STATUS_SUCCESS\<close> and leave the whole state as it is. In \<^verbatim>\<open>RequestedLaunch\<close>,
  \<^verbatim>\<open>RequestedTerminate\<close> and \<^verbatim>\<open>Terminated\<close> both return \<^verbatim>\<open>LB_STATUS_ERROR_INVALID\<close> and
  leave the whole state as it is: no request is sent and the slave's state does not change.
\<close>

theorem slave_resume_pause_idempotent:
  "(state (node w slave) \<in> {SLAVE_RESUMED, SLAVE_REQUEST_TO_RESUME} \<longrightarrow>
      slave_resume e slave w = (LB_STATUS_SUCCESS, w))
   \<and> (state (node w slave) \<in> {SLAVE_PAUSED, SLAVE_REQUEST_TO_PAUSE} \<longrightarrow>
      slave_pause e slave w = (LB_STATUS_SUCCESS, w))
   \<and> (state (node w slave)
         \<in> {SLAVE_REQUEST_TO_LAUNCH, SLAVE_REQUEST_TO_TERMINATE, SLAVE_TERMINATED} \<longrightarrow>
      slave_resume e slave w = (LB_STATUS_ERROR_INVALID, w)
      \<and> slave_pause e slave w = (LB_STATUS_ERROR_INVALID, w))"
  by (auto simp: slave_resume_def slave_pause_def)

theorem slave_resume_pause_idempotent_witness:
  "slave_resume sample_env 1 sample_world = (LB_STATUS_SUCCESS, sample_world)
   \<and> slave_pause sample_env 1 (update_node 1 (\<lambda>s. s\<lparr>state := SLAVE_PAUSED\<rparr>) sample_world)
       = (LB_STATUS_SUCCESS, update_node 1 (\<lambda>s. s\<lparr>state := SLAVE_PAUSED\<rparr>) sample_world)
   \<and> slave_resume sample_env 1 (update_node 1 (\<lambda>s. s\<lparr>state := SLAVE_TERMINATED\<rparr>) sample_world)
       = (LB_STATUS_ERROR_INVALID, update_node 1 (\<lambda>s. s\<lparr>state := SLAVE_TERMINATED\<rparr>) sample_world)
   \<and> slave_pause sample_env 1 (update_node 1 (\<lambda>s. s\<lparr>state := SLAVE_TERMINATED\<rparr>) sample_world)
       = (LB_STATUS_ERROR_INVALID, update_node 1 (\<lambda>s. s\<lparr>state := SLAVE_TERMINATED\<rparr>) sample_world)"
proof -
  have s: "state (node sample_world 1) = SLAVE_RESUMED"
    by (simp add: sample_world_def sample_slave_def node_def)
  show ?thesis
    using slave_resume_pause_idempotent [of sample_world 1 sample_env]
      slave_resume_pause_idempotent
        [of "update_node 1 (\<lambda>s. s\<lparr>state := SLAVE_PAUSED\<rparr>) sample_world" 1 sample_env]
      slave_resume_pause_idempotent
        [of "update_node 1 (\<lambda>s. s\<lparr>state := SLAVE_TERMINATED\<rparr>) sample_world" 1 sample_env]
    by (simp add: s del: One_nat_def)
qed

subsection \<open>The last reference to a live slave\<close>

text \<open>
  C9. When the last reference to a slave whose \<^verbatim>\<open>pid\<close> is set is dropped, \<^verbatim>\<open>slave_unref\<close>
  returns \<^verbatim>\<open>NULL\<close> and \<^verbatim>\<open>destroy_slave_node\<close> only prints the error
  \<^verbatim>\<open>Slave is not deactivated\<close>: the record is still allocated, with \<^verbatim>\<open>refcnt\<close> 0 and every
  other field (event lists, data list, timers) as before; the registry list is as before;
  and nothing but the error line is added to the trace, so no timer is deleted and no
  delete observer runs.
\<close>

theorem slave_unref_live_not_destroyed:
  assumes "nodes w slave = Some s"
    and "pid s \<noteq> -1"
    and "refcnt s = 1"
  shows "slave_unref e (Some slave) w =
           (None, w\<lparr>nodes := (nodes w)(slave \<mapsto> s\<lparr>refcnt := 0\<rparr>),
                    trace := trace w @ [ErrPrint ''Slave is not deactivated'']\<rparr>)
         \<and> slave_list (snd (slave_unref e (Some slave) w)) = slave_list w
         \<and> nodes (snd (slave_unref e (Some slave) w)) slave = Some (s\<lparr>refcnt := 0\<rparr>)"
  using assms
  by (simp add: slave_unref_def destroy_slave_node_def update_node_def node_def slave_pid_def
      emit_def Let_def)

theorem slave_unref_live_not_destroyed_witness:
  "slave_unref sample_env (Some 1) last_ref_world =
     (None, last_ref_world
              \<lparr>nodes := (\<lambda>p. if p = 1 then Some (sample_slave\<lparr>refcnt := 0\<rparr>) else None),
               trace := [ErrPrint ''Slave is not deactivated'']\<rparr>)"
proof -
  have a: "nodes last_ref_world 1 = Some (sample_slave\<lparr>refcnt := 1\<rparr>)"
    by (simp add: last_ref_world_def sample_world_def)
  have b: "pid (sample_slave\<lparr>refcnt := 1\<rparr>) \<noteq> -1" "refcnt (sample_slave\<lparr>refcnt := 1\<rparr>) = 1"
    by (simp_all add: sample_slave_def)
  show ?thesis
    using slave_unref_live_not_destroyed [OF a b, of sample_env]
    by (simp add: last_ref_world_def sample_world_def fun_eq_iff)
qed

subsection \<open>The load counters\<close>

lemma keeps_loads_refl [simp]: "keeps_loads w w"
  by (simp add: keeps_loads_def split: option.splits)

lemma keeps_loads_cong_nodes: "nodes w' = nodes w1 \<Longrightarrow> keeps_loads w w' = keeps_loads w w1"
  by (simp add: keeps_loads_def)

lemma keeps_loads_emit [simp]: "keeps_loads w (emit es w1) = keeps_loads w w1"
  by (simp add: keeps_loads_def)

lemma keeps_loads_slave_list [simp]:
  "keeps_loads w (w1\<lparr>slave_list := l\<rparr>) = keeps_loads w w1"
  by (simp add: keeps_loads_def)

lemma valid_update [simp]: "nodes (update_node p f w) p \<noteq> None"
  by (simp add: update_node_def)

lemma valid_update_ex [simp]: "\<exists>y. nodes (update_node p f w) p = Some y"
  by (simp add: update_node_def)

lemma valid_update_other [simp]: "nodes w q \<noteq> None \<Longrightarrow> nodes (update_node p f w) q \<noteq> None"
  by (simp add: update_node_def)

lemma keeps_loads_update [simp]:
  assumes "nodes w1 p \<noteq> None"
    and "\<And>s. loaded_instance (f s) = loaded_instance s"
    and "\<And>s. loaded_package (f s) = loaded_package s"
  shows "keeps_loads w (update_node p f w1) = keeps_loads w w1"
proof -
  have "(case nodes (update_node p f w1) q of
           None \<Rightarrow> True
         | Some s' \<Rightarrow>
             (case nodes w q of
                None \<Rightarrow> False
              | Some s \<Rightarrow> loaded_instance s' = loaded_instance s
                          \<and> loaded_package s' = loaded_package s))
        = (case nodes w1 q of
             None \<Rightarrow> True
           | Some s' \<Rightarrow>
               (case nodes w q of
                  None \<Rightarrow> False
                | Some s \<Rightarrow> loaded_instance s' = loaded_instance s
                            \<and> loaded_package s' = loaded_package s))" for q
    using assms by (auto simp: update_node_def node_def split: option.splits)
  then show ?thesis
    by (simp add: keeps_loads_def)
qed

lemma keeps_loads_free:
  "keeps_loads w w1 \<Longrightarrow> keeps_loads w (w1\<lparr>nodes := (nodes w1)(p := None)\<rparr>)"
  by (simp add: keeps_loads_def split: option.splits)

lemma keeps_loads_nonneg: "keeps_loads w w' \<Longrightarrow> loads_nonneg w \<Longrightarrow> loads_nonneg w'"
  unfolding loads_nonneg_def
proof
  fix q
  assume k: "keeps_loads w w'"
    and n: "\<forall>q. case nodes w q of
                  None \<Rightarrow> True
                | Some s \<Rightarrow> 0 \<le> sint (loaded_instance s) \<and> 0 \<le> sint (loaded_package s)"
  show "case nodes w' q of
          None \<Rightarrow> True
        | Some s \<Rightarrow> 0 \<le> sint (loaded_instance s) \<and> 0 \<le> sint (loaded_package s)"
    using k [unfolded keeps_loads_def, rule_format, of q] n [rule_format, of q]
    by (auto split: option.splits)
qed

lemma invoke_deactivate_cb_keeps [simp]:
  assumes "nodes w1 p \<noteq> None"
  shows "keeps_loads w (snd (invoke_deactivate_cb e p w1)) = keeps_loads w w1"
    and "nodes (snd (invoke_deactivate_cb e p w1)) p \<noteq> None"
  using assms by (simp_all add: invoke_deactivate_cb_def Let_def split_beta)

lemma invoke_delete_cb_keeps [simp]:
  assumes "nodes w1 p \<noteq> None"
  shows "keeps_loads w (invoke_delete_cb e p w1) = keeps_loads w w1"
    and "nodes (invoke_delete_cb e p w1) p \<noteq> None"
  using assms by (simp_all add: invoke_delete_cb_def Let_def split_beta)

lemma destroy_slave_node_keeps:
  assumes "nodes w1 p \<noteq> None" and "keeps_loads w w1"
  shows "keeps_loads w (destroy_slave_node e p w1)"
proof (cases "slave_pid w1 p \<noteq> -1")
  case True
  then show ?thesis
    using assms by (simp add: destroy_slave_node_def)
next
  case False
  then show ?thesis
    unfolding destroy_slave_node_def Let_def
    apply (simp only: if_False)
    apply (rule keeps_loads_free)
    using assms apply simp
    done
qed

lemma slave_unref_keeps:
  assumes "nodes w1 p \<noteq> None" and "keeps_loads w w1"
  shows "keeps_loads w (snd (slave_unref e (Some p) w1))"
    and "fst (slave_unref e (Some p) w1) = Some q \<Longrightarrow>
         q = p \<and> nodes (snd (slave_unref e (Some p) w1)) p \<noteq> None"
  using assms
  by (auto simp: slave_unref_def Let_def destroy_slave_node_keeps split: if_splits)

lemma slave_activate_keeps:
  assumes "nodes w1 p \<noteq> None" and "keeps_loads w w1"
  shows "keeps_loads w (snd (slave_activate e p w1))"
    and "nodes (snd (slave_activate e p w1)) p \<noteq> None"
  using assms
  by (simp_all add: slave_activate_def Let_def slave_ref_def slave_set_reactivation_def)

lemma slave_deactivated_keeps:
  assumes "nodes w0 p \<noteq> None" and "keeps_loads w w0"
  shows "keeps_loads w (snd (slave_deactivated e p w0))"
proof -
  define w1 where "w1 = emit (timer_dels (node w0 p))
                 (update_node p
                    (\<lambda>s. s\<lparr>pid := -1, state := SLAVE_TERMINATED, ttl_timer := None,
                           activate_timer := None, relaunch_timer := None\<rparr>) w0)"
  define reactivate where "reactivate = fst (invoke_deactivate_cb e p w1)"
  define w2 where "w2 = snd (invoke_deactivate_cb e p w1)"
  define r where "r = fst (slave_unref e (Some p) w2)"
  define w3 where "w3 = snd (slave_unref e (Some p) w2)"
  have k1: "keeps_loads w w1" and v1: "nodes w1 p \<noteq> None"
    using assms by (simp_all add: w1_def)
  have k2: "keeps_loads w w2" and v2: "nodes w2 p \<noteq> None"
    using k1 v1 by (simp_all add: w2_def)
  have k3: "keeps_loads w w3"
    using slave_unref_keeps(1) [OF v2 k2] by (simp add: w3_def)
  have v3: "r = Some q \<Longrightarrow> q = p \<and> nodes w3 p \<noteq> None" for q
    using slave_unref_keeps(2) [OF v2 k2] by (simp add: w3_def r_def)
  have unf: "slave_deactivated e p w0 =
      (case r of
         None \<Rightarrow> (None, emit [DbgPrint ''SLAVE object is destroyed''] w3)
       | Some q \<Rightarrow>
           if reactivate \<noteq> 0 \<and> slave_need_to_reactivate w3 q \<noteq> 0 then
             (let (ret, w4) =
                    slave_activate e q (emit [DbgPrint ''Need to reactivate a slave''] w3)
              in (Some q,
                  if ret \<noteq> LB_STATUS_SUCCESS \<and> ret \<noteq> LB_STATUS_ERROR_ALREADY
                  then emit [ErrPrint ''Failed to reactivate a slave''] w4 else w4))
           else if slave_loaded_instance w3 q = 0 then slave_unref e (Some q) w3
           else (Some q, w3))"
    unfolding slave_deactivated_def Let_def w1_def [symmetric] w3_def r_def w2_def reactivate_def
    by (simp add: split_beta)
  show ?thesis
  proof (cases r)
    case None
    then show ?thesis
      using k3 by (simp add: unf)
  next
    case (Some q)
    then have q: "q = p" and v: "nodes w3 p \<noteq> None"
      using v3 by auto
    have ka: "keeps_loads w
                (snd (slave_activate e p (emit [DbgPrint ''Need to reactivate a slave''] w3)))"
      by (rule slave_activate_keeps(1)) (simp_all add: v k3)
    have kc: "keeps_loads w (snd (slave_unref e (Some p) w3))"
      by (rule slave_unref_keeps(1) [OF v k3])
    show ?thesis
      using Some q ka kc k3 by (simp add: unf split_beta)
  qed
qed

lemma slave_deactivate_keeps:
  assumes "nodes w1 p \<noteq> None" and "keeps_loads w w1"
  shows "keeps_loads w (snd (slave_deactivate e p w1))"
  using assms
  by (simp add: slave_deactivate_def Let_def slave_unref_keeps(1) slave_deactivated_keeps)

lemma sint_dec_nonneg:
  fixes x :: cint
  assumes "0 \<le> sint x" and "x \<noteq> 0"
  shows "0 \<le> sint (x - 1)"
proof -
  have "sint x \<noteq> 0"
    using assms(2) by (simp add: signed_eq_0_iff)
  then have p: "1 \<le> sint x"
    using assms(1) by simp
  have "sint (x - 1) = signed_take_bit (LENGTH(32) - 1) (sint x - sint (1::cint))"
    by (simp add: sint_word_ariths)
  also have "\<dots> = sint x - 1"
    using p sint_lt [of x] by (simp add: signed_take_bit_int_eq_self)
  finally show ?thesis
    using p by simp
qed

lemma loads_nonneg_update:
  assumes "loads_nonneg w" and "nodes w p = Some s"
    and "0 \<le> sint (loaded_instance (f s))" and "0 \<le> sint (loaded_package (f s))"
  shows "loads_nonneg (update_node p f w)"
  unfolding loads_nonneg_def
proof
  fix q
  show "case nodes (update_node p f w) q of
          None \<Rightarrow> True
        | Some s \<Rightarrow> 0 \<le> sint (loaded_instance s) \<and> 0 \<le> sint (loaded_package s)"
  proof (cases "q = p")
    case True
    then show ?thesis
      using assms(2,3,4) by (simp add: update_node_def node_def)
  next
    case False
    then show ?thesis
      using assms(1) [unfolded loads_nonneg_def, rule_format, of q]
      by (simp add: update_node_def)
  qed
qed

lemma loads_nonneg_at:
  assumes "loads_nonneg w" and "nodes w p = Some s"
  shows "0 \<le> sint (loaded_instance s)" and "0 \<le> sint (loaded_package s)"
  using assms(1) [unfolded loads_nonneg_def, rule_format, of p] assms(2) by simp_all

lemma loads_nonneg_emit [simp]: "loads_nonneg (emit es w) = loads_nonneg w"
  by (simp add: loads_nonneg_def)

lemma slave_unload_package_nonneg:
  assumes "nodes w p = Some s" and "loads_nonneg w"
  shows "loads_nonneg (slave_unload_package (Some p) w)"
proof (cases "loaded_package s = 0")
  case True
  then show ?thesis
    using assms by (simp add: slave_unload_package_def node_def)
next
  case False
  have "loads_nonneg (update_node p (\<lambda>s. s\<lparr>loaded_package := loaded_package s - 1\<rparr>) w)"
    using loads_nonneg_at [OF assms(2,1)] sint_dec_nonneg [OF _ False]
    by (intro loads_nonneg_update [OF assms(2,1)]) simp_all
  then show ?thesis
    using False assms(1) by (simp add: slave_unload_package_def node_def)
qed

lemma slave_unload_instance_nonneg:
  assumes "nodes w p = Some s" and "loads_nonneg w"
  shows "loads_nonneg (snd (slave_unload_instance e (Some p) w))"
proof (cases "loaded_instance s = 0")
  case True
  then show ?thesis
    using assms by (simp add: slave_unload_instance_def node_def)
next
  case False
  define w1 where "w1 = emit [DbgPrint ''Instance'']
                        (update_node p (\<lambda>s. s\<lparr>loaded_instance := loaded_instance s - 1\<rparr>) w)"
  have "loads_nonneg (update_node p (\<lambda>s. s\<lparr>loaded_instance := loaded_instance s - 1\<rparr>) w)"
    using loads_nonneg_at [OF assms(2,1)] sint_dec_nonneg [OF _ False]
    by (intro loads_nonneg_update [OF assms(2,1)]) simp_all
  then have n1: "loads_nonneg w1"
    by (simp add: w1_def)
  have v1: "nodes w1 p \<noteq> None"
    by (simp add: w1_def)
  have k: "keeps_loads w1 (snd (slave_deactivate e p
            (slave_set_reactivate_instances p 0 (slave_set_reactivation p 0 w1))))"
    by (rule slave_deactivate_keeps)
       (simp_all add: v1 slave_set_reactivate_instances_def slave_set_reactivation_def)
  have unf: "slave_unload_instance e (Some p) w =
               (if loaded_instance (node w1 p) = 0 \<and> slave_is_activated w1 p
                then slave_deactivate e p
                       (slave_set_reactivate_instances p 0 (slave_set_reactivation p 0 w1))
                else (Some p, w1))"
    using False assms(1) unfolding slave_unload_instance_def Let_def w1_def
    by (simp add: node_def)
  show ?thesis
    unfolding unf using keeps_loads_nonneg [OF k n1] n1 by simp
qed

text \<open>
  C10. On a slave whose \<^verbatim>\<open>loaded_package\<close> is 0, \<^verbatim>\<open>slave_unload_package\<close> prints an error
  and changes nothing else; on a slave whose \<^verbatim>\<open>loaded_instance\<close> is 0,
  \<^verbatim>\<open>slave_unload_instance\<close> prints an error, returns the slave and changes nothing else.
  Hence the two unload operations keep both counters of every record from going negative:
  if no counter of any record is negative before, none is after.
\<close>

theorem slave_unload_at_zero_noop:
  assumes "nodes w p = Some s"
  shows "(loaded_package s = 0 \<longrightarrow>
            slave_unload_package (Some p) w
              = emit [ErrPrint ''Slave loaded package is not correct''] w)
         \<and> (loaded_instance s = 0 \<longrightarrow>
            slave_unload_instance e (Some p) w
              = (Some p, emit [ErrPrint ''Slave loaded instance is not correct''] w))
         \<and> (loads_nonneg w \<longrightarrow>
            loads_nonneg (slave_unload_package (Some p) w)
            \<and> loads_nonneg (snd (slave_unload_instance e (Some p) w)))"
  using assms slave_unload_package_nonneg [OF assms] slave_unload_instance_nonneg [OF assms]
  by (simp add: slave_unload_package_def slave_unload_instance_def node_def)

theorem slave_unload_at_zero_noop_witness:
  "slave_unload_package (Some 1) idle_world
     = idle_world\<lparr>trace := [ErrPrint ''Slave loaded package is not correct'']\<rparr>
   \<and> slave_unload_instance sample_env (Some 1) idle_world
     = (Some 1, idle_world\<lparr>trace := [ErrPrint ''Slave loaded instance is not correct'']\<rparr>)
   \<and> loads_nonneg (slave_unload_package (Some 1) sample_world)
   \<and> loads_nonneg (snd (slave_unload_instance sample_env (Some 1) sample_world))"
proof -
  have a: "nodes idle_world 1 = Some (sample_slave\<lparr>loaded_instance := 0, loaded_package := 0\<rparr>)"
    by (simp add: idle_world_def sample_world_def)
  have b: "nodes sample_world 1 = Some sample_slave"
    by (simp add: sample_world_def)
  have n: "loads_nonneg sample_world"
    by (simp add: loads_nonneg_def sample_world_def sample_slave_def)
  show ?thesis
    using slave_unload_at_zero_noop [OF a, of sample_env]
      slave_unload_at_zero_noop [OF b, of sample_env] n
    by (simp add: emit_def idle_world_def sample_world_def)
qed

subsection \<open>Fast crashes\<close>

lemma invoke_event_list_trace: "snd (invoke_event_list e l cur) = map InvokeCb l"
  by (induction l arbitrary: cur) (simp_all add: split_beta Let_def)

lemma node_invoke_fault_cb:
  "critical_fault_count (node (invoke_fault_cb e slave w) slave)
     = critical_fault_count (node w slave)"
  by (simp add: invoke_fault_cb_def Let_def split_beta)

text \<open>
  Under \<^verbatim>\<open>_USE_ECORE_TIME_GET\<close> a fast crash never leaves a count behind: the branch
  below the threshold sets \<^verbatim>\<open>critical_fault_count\<close> back to 0 right after the increment.
\<close>

lemma fault_policy_ecore_fast_resets:
  assumes "double_sub e (ecore_time_get e) (activated_at (node w slave))
             < MINIMUM_REACTIVATION_TIME e"
  shows "critical_fault_count (node (snd (fault_policy_ecore e slave w)) slave) = 0"
  using assms by (simp add: fault_policy_ecore_def Let_def node_invoke_fault_cb)

text \<open>
  Without \<^verbatim>\<open>_USE_ECORE_TIME_GET\<close> a fast crash below the threshold keeps the incremented
  count and asks for reactivation; at the threshold the observers of the fault event run
  and reactivation is refused.
\<close>

lemma fault_policy_timeofday_counts:
  assumes "gettimeofday e = Some now"
    and "real_of_int (tv_sec (timersub now (activated_at_tv (node w slave))))
           < MINIMUM_REACTIVATION_TIME e"
    and "loaded_instance (node w slave) \<noteq> 0"
    and "sint (critical_fault_count (node w slave) + 1) < sint (SLAVE_MAX_LOAD e)"
  shows "fault_policy_timeofday e slave w =
           ((1, 1), update_node slave
                      (\<lambda>s. s\<lparr>critical_fault_count := critical_fault_count s + 1\<rparr>) w)"
  using assms by (simp add: fault_policy_timeofday_def Let_def slave_loaded_instance_def)

lemma trace_update_node [simp]: "trace (update_node p f w) = trace w"
  by (simp add: update_node_def)

lemma trace_emit [simp]: "trace (emit es w) = trace w @ es"
  by (simp add: emit_def)

lemma trace_invoke_fault_cb:
  "trace (invoke_fault_cb e slave w) = trace w @ map InvokeCb (event_fault_list (node w slave))"
  by (simp add: invoke_fault_cb_def Let_def split_beta invoke_event_list_trace)

lemma fault_policy_timeofday_threshold:
  assumes "gettimeofday e = Some now"
    and "real_of_int (tv_sec (timersub now (activated_at_tv (node w slave))))
           < MINIMUM_REACTIVATION_TIME e"
    and "sint (SLAVE_MAX_LOAD e) \<le> sint (critical_fault_count (node w slave) + 1)"
  shows "fst (fault_policy_timeofday e slave w) = (0, 0)
         \<and> critical_fault_count (node (snd (fault_policy_timeofday e slave w)) slave) = 0
         \<and> trace (snd (fault_policy_timeofday e slave w)) =
             trace w
             @ [ErrPrint ''Reactivation time is too fast and frequently occurred - Stop to auto reactivation'']
             @ map InvokeCb (event_fault_list (node w slave))"
  using assms
  by (simp add: fault_policy_timeofday_def Let_def slave_loaded_instance_def
      node_invoke_fault_cb trace_invoke_fault_cb)

lemmas storm_defs =
  storm_env_def slave_world_def storm_slave_def sample_defs slave_life_defs fault_manager_defs
  fault_ev_def deactivate_ev_def sample_launch_def slave_activated_def invoke_activate_cb_def
  slave_pause_def crash_effects_def relaunch_effects_def

text \<open>
  The crash storm, step by step, in the build with \<^verbatim>\<open>_USE_ECORE_TIME_GET\<close>: the crash of
  process 200 with the relaunch as process 300, the hello of the new process, and its
  crash.
\<close>

lemma storm_ecore_first_crash:
  "slave_deactivated_by_fault (storm_env True) 1 (slave_world storm_slave []) =
     (Some 1,
      slave_world
        (storm_slave\<lparr>fault_count := 1, state := SLAVE_REQUEST_TO_LAUNCH,
                     reactivate_instances := 1, reactivate_slave := 1, pid := 300,
                     activate_timer := Some 1\<rparr>)
        (crash_effects 200 @ relaunch_effects))"
  by (simp add: storm_defs fun_eq_iff del: One_nat_def)

lemma storm_ecore_hello:
  "slave_activated (storm_env True) 1
     (slave_world
        (storm_slave\<lparr>fault_count := 1, state := SLAVE_REQUEST_TO_LAUNCH,
                     reactivate_instances := 1, reactivate_slave := 1, pid := 300,
                     activate_timer := Some 1\<rparr>) tr) =
     (LB_STATUS_SUCCESS,
      slave_world (storm_slave\<lparr>fault_count := 1, pid := 300, activated_at := 7\<rparr>)
        (tr @ [EcoreTimerDel 1]))"
  by (simp add: storm_defs fun_eq_iff del: One_nat_def)

lemma storm_ecore_second_crash:
  "slave_deactivated_by_fault (storm_env True) 1
     (slave_world (storm_slave\<lparr>fault_count := 1, pid := 300, activated_at := 7\<rparr>) tr) =
     (Some 1,
      slave_world
        (storm_slave\<lparr>fault_count := 2, state := SLAVE_REQUEST_TO_LAUNCH,
                     reactivate_instances := 1, reactivate_slave := 1, pid := 300,
                     activate_timer := Some 1, activated_at := 7\<rparr>)
        (tr @ crash_effects 300 @ relaunch_effects))"
  by (simp add: storm_defs fun_eq_iff del: One_nat_def)

text \<open>The same three steps in the build without \<^verbatim>\<open>_USE_ECORE_TIME_GET\<close>.\<close>

lemma storm_timeofday_first_crash:
  "slave_deactivated_by_fault (storm_env False) 1 (slave_world storm_slave []) =
     (Some 1,
      slave_world
        (storm_slave\<lparr>fault_count := 1, critical_fault_count := 1,
                     state := SLAVE_REQUEST_TO_LAUNCH, reactivate_instances := 1,
                     reactivate_slave := 1, pid := 300, activate_timer := Some 1\<rparr>)
        (crash_effects 200 @ relaunch_effects))"
  by (simp add: storm_defs fun_eq_iff del: One_nat_def)

lemma storm_timeofday_hello:
  "slave_activated (storm_env False) 1
     (slave_world
        (storm_slave\<lparr>fault_count := 1, critical_fault_count := 1,
                     state := SLAVE_REQUEST_TO_LAUNCH, reactivate_instances := 1,
                     reactivate_slave := 1, pid := 300, activate_timer := Some 1\<rparr>) tr) =
     (LB_STATUS_SUCCESS,
      slave_world
        (storm_slave\<lparr>fault_count := 1, critical_fault_count := 1, pid := 300,
                     activated_at_tv := \<lparr>tv_sec = 7, tv_usec = 0\<rparr>\<rparr>)
        (tr @ [EcoreTimerDel 1]))"
  by (simp add: storm_defs fun_eq_iff del: One_nat_def)

lemma storm_timeofday_second_crash:
  "slave_deactivated_by_fault (storm_env False) 1
     (slave_world
        (storm_slave\<lparr>fault_count := 1, critical_fault_count := 1, pid := 300,
                     activated_at_tv := \<lparr>tv_sec = 7, tv_usec = 0\<rparr>\<rparr>) tr) =
     (Some 1,
      slave_world
        (storm_slave\<lparr>refcnt := 1, fault_count := 2, state := SLAVE_TERMINATED, pid := -1,
                     activated_at_tv := \<lparr>tv_sec = 7, tv_usec = 0\<rparr>\<rparr>)
        (tr @ crash_effects 300
            @ [ErrPrint ''Reactivation time is too fast and frequently occurred - Stop to auto reactivation'',
               InvokeCb fault_ev, InvokeCb deactivate_ev]))"
  by (simp add: storm_defs fun_eq_iff del: One_nat_def)

lemma node_slave_world: "node (slave_world s tr) 1 = s"
  by (simp add: slave_world_def node_def)

lemma trace_slave_world: "trace (slave_world s tr) = tr"
  by (simp add: slave_world_def)

text \<open>
  C2, evaluated where the code departs from it. The build defines
  \<^verbatim>\<open>_USE_ECORE_TIME_GET\<close>, \<^verbatim>\<open>SLAVE_MAX_LOAD\<close> is 2 and the slave has an instance loaded.
  It crashes two seconds after its activation, is relaunched and says hello, and crashes
  again at once. After the first crash \<^verbatim>\<open>critical_fault_count\<close> is 0 again, so the second
  crash does not reach the threshold: both reactivation flags are 1, the slave is launched
  a second time, and the fault observer \<open>fault_ev\<close> is not in the trace.
\<close>

theorem fast_crash_storm_ecore:
  "(let w1 = snd (slave_deactivated_by_fault (storm_env True) 1 storm_world);
        w2 = snd (slave_activated (storm_env True) 1 w1);
        w3 = snd (slave_deactivated_by_fault (storm_env True) 1 w2)
    in critical_fault_count (node w1 1) = 0
       \<and> state (node w2 1) = SLAVE_RESUMED
       \<and> critical_fault_count (node w3 1) = 0
       \<and> reactivate_slave (node w3 1) = 1
       \<and> reactivate_instances (node w3 1) = 1
       \<and> state (node w3 1) = SLAVE_REQUEST_TO_LAUNCH
       \<and> trace w3 = crash_effects 200 @ relaunch_effects @ [EcoreTimerDel 1]
                     @ crash_effects 300 @ relaunch_effects)"
  unfolding storm_world_def Let_def storm_ecore_first_crash snd_conv storm_ecore_hello
    storm_ecore_second_crash node_slave_world trace_slave_world
  by (simp add: storm_slave_def sample_slave_def)

theorem fast_crash_storm_ecore_witness:
  "reactivate_slave
     (node (snd (slave_deactivated_by_fault (storm_env True) 1
               (snd (slave_activated (storm_env True) 1
                  (snd (slave_deactivated_by_fault (storm_env True) 1 storm_world)))))) 1) = 1"
  using fast_crash_storm_ecore by (simp add: Let_def)

text \<open>
  The same storm in the build without \<^verbatim>\<open>_USE_ECORE_TIME_GET\<close>: the count is 1 after the
  first crash, and the second crash clears both flags, runs the fault observer and leaves
  the slave terminated.
\<close>

lemma fast_crash_storm_timeofday:
  "(let w1 = snd (slave_deactivated_by_fault (storm_env False) 1 storm_world);
        w2 = snd (slave_activated (storm_env False) 1 w1);
        w3 = snd (slave_deactivated_by_fault (storm_env False) 1 w2)
    in critical_fault_count (node w1 1) = 1
       \<and> state (node w2 1) = SLAVE_RESUMED
       \<and> critical_fault_count (node w3 1) = 0
       \<and> reactivate_slave (node w3 1) = 0
       \<and> reactivate_instances (node w3 1) = 0
       \<and> state (node w3 1) = SLAVE_TERMINATED
       \<and> trace w3 = crash_effects 200 @ relaunch_effects @ [EcoreTimerDel 1]
                     @ crash_effects 300
                     @ [ErrPrint ''Reactivation time is too fast and frequently occurred - Stop to auto reactivation'',
                        InvokeCb fault_ev, InvokeCb deactivate_ev])"
  unfolding storm_world_def Let_def storm_timeofday_first_crash snd_conv storm_timeofday_hello
    storm_timeofday_second_crash node_slave_world trace_slave_world
  by (simp add: storm_slave_def sample_slave_def)

end
